theory Spec2Isabelle
  imports Complex_Main "HOL-Library.Word" "HOL-Library.Log_Nat"
begin

section \<open>Go values: errors, panics, pointers\<close>

text \<open>
  A Go function of the package either returns or panics. A returned \<^verbatim>\<open>error\<close> is
  modelled by its message (what \<^verbatim>\<open>err.Error()\<close> and the verb \<^verbatim>\<open>%v\<close> print); a run-time
  panic is a separate constructor, because \<^verbatim>\<open>if err != nil\<close> never sees it: it unwinds
  through every caller. A function returning \<^verbatim>\<open>(T, error)\<close> has the result type
  \<open>error + T\<close>, a function returning only \<^verbatim>\<open>error\<close> the type \<open>error option\<close>
  (\<open>None\<close> is \<^verbatim>\<open>nil\<close>). A pointer that may be \<^verbatim>\<open>nil\<close> is an \<open>option\<close>.
\<close>

datatype panic = NilPointerDereference | IndexOutOfRange nat nat

datatype error = Err string | Panic panic

section \<open>The types of the Docker client library that the code reads\<close>

text \<open>
  These structs belong to \<^verbatim>\<open>github.com/docker/docker/api/types\<close> (and its subpackages
  \<^verbatim>\<open>container\<close> and \<^verbatim>\<open>network\<close>). The fields the package reads are all here; of the
  structs that are only passed through (\<^verbatim>\<open>container.Config\<close>, \<^verbatim>\<open>container.HostConfig\<close>,
  \<^verbatim>\<open>network.EndpointSettings\<close>) a few fields stand for the whole value. A Go map that the
  code iterates over is an association list, in the order the run time happens to visit it.
\<close>

record Config =
  Image :: string
  Cmd :: "string list"
  Env :: "string list"

record HostConfig =
  Binds :: "string list"
  NetworkMode :: string
  RestartPolicy :: string

record EndpointSettings =
  NetworkID :: string
  IPAddress :: string

type_synonym Networks = "(string \<times> EndpointSettings option) list"

record NetworkingConfig =
  EndpointsConfig :: Networks

record NetworkSettings =
  Networks :: Networks

record ContainerJSONBase =
  ID :: string
  Name :: string
  HostConfig :: "HostConfig option"

record ContainerJSON =
  ContainerJSONBase :: "ContainerJSONBase option"
  Config :: "Config option"
  NetworkSettings :: "NetworkSettings option"

record CreateResponse =
  ID :: string
  Warnings :: "string list"

record ContainerListOptions =
  Size :: bool
  All :: bool
  Latest :: bool
  Since :: string
  Before :: string
  Limit :: int
  Filters :: "(string \<times> string list) list"

record ContainerStartOptions =
  CheckpointID :: string
  CheckpointDir :: string

record StopOptions =
  Signal :: string
  Timeout :: "int option"

record ImagePullOptions =
  All :: bool
  RegistryAuth :: string
  Platform :: string

record ContainerRemoveOptions =
  RemoveVolumes :: bool
  RemoveLinks :: bool
  Force :: bool

record types_Port =
  IP :: string
  PrivatePort :: "16 word"
  PublicPort :: "16 word"
  Type :: string

record MountPoint =
  Source :: string
  Destination :: string

record SummaryHostConfig =
  NetworkMode :: string

record SummaryNetworkSettings =
  Networks :: Networks

record types_Container =
  ID :: string
  Names :: "string list"
  Image :: string
  ImageID :: string
  Command :: string
  Created :: "64 word"
  Ports :: "types_Port list"
  SizeRw :: "64 word"
  SizeRootFs :: "64 word"
  Labels :: "(string \<times> string) list"
  State :: string
  Status :: string
  HostConfig :: SummaryHostConfig
  NetworkSettings :: "SummaryNetworkSettings option"
  Mounts :: "MountPoint list"

record CPUUsage =
  TotalUsage :: "64 word"
  PercpuUsage :: "64 word list"
  UsageInKernelmode :: "64 word"
  UsageInUsermode :: "64 word"

record CPUStats =
  CPUUsage :: CPUUsage
  SystemUsage :: "64 word"
  OnlineCPUs :: "32 word"

record MemoryStats =
  Usage :: "64 word"
  Limit :: "64 word"

record NetworkStats =
  RxBytes :: "64 word"
  TxBytes :: "64 word"

record StatsJSON =
  CPUStats :: CPUStats
  PreCPUStats :: CPUStats
  MemoryStats :: MemoryStats
  Networks :: "string \<rightharpoonup> NetworkStats"

text \<open>The zero values \<^verbatim>\<open>T{}\<close> of the option structs.\<close>

definition ContainerListOptions_zero :: ContainerListOptions where
  "ContainerListOptions_zero =
     \<lparr>Size = False, ContainerListOptions.All = False, Latest = False, Since = [],
      Before = [], Limit = 0, Filters = []\<rparr>"

definition ContainerStartOptions_zero :: ContainerStartOptions where
  "ContainerStartOptions_zero = \<lparr>CheckpointID = [], CheckpointDir = []\<rparr>"

definition ImagePullOptions_zero :: ImagePullOptions where
  "ImagePullOptions_zero = \<lparr>ImagePullOptions.All = False, RegistryAuth = [], Platform = []\<rparr>"

section \<open>The daemon behind the client, and the process state\<close>

text \<open>
  The methods of \<^verbatim>\<open>*client.Client\<close> that the package calls. The library and the daemon
  behind it are external: each method is a function of the daemon's state \<open>'d\<close>, giving
  an error message or a result, and the daemon's next state. Every theorem about the
  package's control flow holds for every such record. The body that \<^verbatim>\<open>ContainerStats\<close>
  returns is represented by what \<^verbatim>\<open>json.NewDecoder(body).Decode\<close> makes of it: an error
  message or the decoded \<^verbatim>\<open>types.StatsJSON\<close>.
\<close>

record 'd DockerAPI =
  Ping :: "'d \<Rightarrow> (string + unit) \<times> 'd"
  ContainerList :: "ContainerListOptions \<Rightarrow> 'd \<Rightarrow> (string + types_Container list) \<times> 'd"
  ContainerStats :: "string \<Rightarrow> bool \<Rightarrow> 'd \<Rightarrow> (string + (string + StatsJSON)) \<times> 'd"
  ContainerStart :: "string \<Rightarrow> ContainerStartOptions \<Rightarrow> 'd \<Rightarrow> (string + unit) \<times> 'd"
  ContainerStop :: "string \<Rightarrow> StopOptions \<Rightarrow> 'd \<Rightarrow> (string + unit) \<times> 'd"
  ContainerInspect :: "string \<Rightarrow> 'd \<Rightarrow> (string + ContainerJSON) \<times> 'd"
  ImagePull :: "string \<Rightarrow> ImagePullOptions \<Rightarrow> 'd \<Rightarrow> (string + string) \<times> 'd"
  ContainerCreate :: "Config option \<Rightarrow> HostConfig option \<Rightarrow> NetworkingConfig option \<Rightarrow>
      string option \<Rightarrow> string \<Rightarrow> 'd \<Rightarrow> (string + CreateResponse) \<times> 'd"
  ContainerRemove :: "string \<Rightarrow> ContainerRemoveOptions \<Rightarrow> 'd \<Rightarrow> (string + unit) \<times> 'd"

text \<open>A request as the package hands it to the client, with every argument.\<close>

datatype request =
    ReqPing
  | ReqContainerList ContainerListOptions
  | ReqContainerStats string bool
  | ReqContainerStart string ContainerStartOptions
  | ReqContainerStop string StopOptions
  | ReqContainerInspect string
  | ReqImagePull string ImagePullOptions
  | ReqContainerCreate "Config option" "HostConfig option" "NetworkingConfig option"
      "string option" string
  | ReqContainerRemove string ContainerRemoveOptions

text \<open>
  An event is a request together with the error the client returned for it
  (\<open>None\<close>: the call succeeded).
\<close>

type_synonym event = "request \<times> string option"

text \<open>
  What \<^verbatim>\<open>ConnectToDocker\<close> takes from outside the package: the environment variables,
  the two file-reading functions and the constructor of the client library. A path built by
  \<^verbatim>\<open>filepath.Join\<close> is kept as the pair of its arguments. \<^verbatim>\<open>ClientOpts\<close> collects the
  options given to \<^verbatim>\<open>client.NewClientWithOpts\<close>: the HTTP client (its certificate, CA pool
  and timeout), API version negotiation, the host and the three TLS file paths. The
  constructor returns \<^verbatim>\<open>nil\<close> together with an error.
\<close>

datatype path = Join string string

record http_Client =
  Certificates :: "string list"
  RootCAs :: string
  Timeout :: "64 word"

record ClientOpts =
  WithHTTPClient :: http_Client
  WithAPIVersionNegotiation :: bool
  WithHost :: string
  WithTLSClientConfig :: "path \<times> path \<times> path"

record Client =
  opts :: ClientOpts

record environment =
  Getenv :: "string \<Rightarrow> string"
  LoadX509KeyPair :: "path \<Rightarrow> path \<Rightarrow> string + string"
  ReadFile :: "path \<Rightarrow> string + string"
  NewClientWithOpts :: "ClientOpts \<Rightarrow> string + Client"

text \<open>
  The state of the process: the package variable \<^verbatim>\<open>cli\<close> (\<open>None\<close> is the \<^verbatim>\<open>nil\<close> it
  holds before a client is assigned), the daemon, the log of the requests made so far
  (a ghost field, for stating what the code did), and what was written to standard output.
\<close>

record 'd process =
  cli :: "Client option"
  daemon :: 'd
  requests :: "event list"
  stdout :: string

text \<open>
  A method call \<^verbatim>\<open>cli.M(ctx, ...)\<close> on the package variable. A method of a \<^verbatim>\<open>nil\<close>
  client dereferences it before anything is sent. The library's \<^verbatim>\<open>ContainerInspect\<close>
  refuses an empty id before it reads its receiver; that call on a \<^verbatim>\<open>nil\<close> client is
  outside this model. No handler makes it (\<^verbatim>\<open>UpdateContainer\<close> answers 400 for an empty
  id), and no request is sent in it either way.
\<close>

definition invoke ::
  "request \<Rightarrow> ('d \<Rightarrow> (string + 'a) \<times> 'd) \<Rightarrow> 'd process \<Rightarrow> (error + 'a) \<times> 'd process" where
  "invoke rq m s =
     (case cli s of
        None \<Rightarrow> (Inl (Panic NilPointerDereference), s)
      | Some c \<Rightarrow>
          (case m (daemon s) of
             (Inl err, d') \<Rightarrow>
               (Inl (Err err), s\<lparr>daemon := d', requests := requests s @ [(rq, Some err)]\<rparr>)
           | (Inr v, d') \<Rightarrow>
               (Inr v, s\<lparr>daemon := d', requests := requests s @ [(rq, None)]\<rparr>)))"

section \<open>Package utils\<close>

text \<open>
  \<^verbatim>\<open>time.Second\<close> is the \<^verbatim>\<open>time.Duration\<close> (an \<^verbatim>\<open>int64\<close> count of nanoseconds)
  1000000000; \<^verbatim>\<open>int(time.Second * 10)\<close> converts the product to \<^verbatim>\<open>int\<close>, which has
  64 bits on the platforms the server is built for, so the value is kept.
\<close>

definition time_Second :: "64 word" where
  "time_Second = 1000000000"

text \<open>
  \<^verbatim>\<open>ConnectToDocker\<close>. The statement \<^verbatim>\<open>cli, err = client.NewClientWithOpts(...)\<close>
  assigns the package variable itself, before the ping; nothing assigns it afterwards.
\<close>

definition ConnectToDocker ::
  "environment \<Rightarrow> 'd DockerAPI \<Rightarrow> 'd process \<Rightarrow> error option \<times> 'd process" where
  "ConnectToDocker env api s =
     (let CERT_PATH = Getenv env ''CERT_PATH'';
          DOCKER_HOST = Getenv env ''DOCKER_HOST'';
          DOCKER_PORT = Getenv env ''DOCKER_PORT''
      in case LoadX509KeyPair env (Join CERT_PATH ''client.crt'') (Join CERT_PATH ''client.key'') of
           Inl err \<Rightarrow>
             (Some (Err (''failed to load client certificate and key: '' @ err)), s)
         | Inr cert \<Rightarrow>
             (case ReadFile env (Join CERT_PATH ''ca.crt'') of
                Inl err \<Rightarrow> (Some (Err (''failed to read CA certificate: '' @ err)), s)
              | Inr caCert \<Rightarrow>
                  (let httpClient = \<lparr>Certificates = [cert], RootCAs = caCert,
                                      Timeout = time_Second * 10\<rparr>
                   in case NewClientWithOpts env
                             \<lparr>WithHTTPClient = httpClient,
                              WithAPIVersionNegotiation = True,
                              WithHost = ''tcp://'' @ DOCKER_HOST @ '':'' @ DOCKER_PORT,
                              WithTLSClientConfig =
                                (Join CERT_PATH ''ca.crt'', Join CERT_PATH ''client.crt'',
                                 Join CERT_PATH ''client.key'')\<rparr> of
                        Inl err \<Rightarrow>
                          (Some (Err (''failed to create Docker client: '' @ err)),
                           s\<lparr>cli := None\<rparr>)
                      | Inr c \<Rightarrow>
                          (case invoke ReqPing (Ping api) (s\<lparr>cli := Some c\<rparr>) of
                             (Inl (Err err), s') \<Rightarrow>
                               (Some (Err (''failed to ping Docker daemon: '' @ err)), s')
                           | (Inl (Panic p), s') \<Rightarrow> (Some (Panic p), s')
                           | (Inr _, s') \<Rightarrow> (None, s')))))"

definition ListContainers ::
  "'d DockerAPI \<Rightarrow> 'd process \<Rightarrow> (error + types_Container list) \<times> 'd process" where
  "ListContainers api s =
     (case invoke (ReqContainerList ContainerListOptions_zero)
             (ContainerList api ContainerListOptions_zero) s of
        (Inl (Err err), s') \<Rightarrow> (Inl (Err (''failed to list containers: '' @ err)), s')
      | (Inl (Panic p), s') \<Rightarrow> (Inl (Panic p), s')
      | (Inr containers, s') \<Rightarrow> (Inr containers, s'))"

definition GetContainerStatsByID ::
  "'d DockerAPI \<Rightarrow> string \<Rightarrow> 'd process \<Rightarrow> (error + StatsJSON) \<times> 'd process" where
  "GetContainerStatsByID api containerID s =
     (case invoke (ReqContainerStats containerID False)
             (ContainerStats api containerID False) s of
        (Inl (Err err), s') \<Rightarrow>
          (Inl (Err (''failed to get stats for container '' @ containerID @ '': '' @ err)), s')
      | (Inl (Panic p), s') \<Rightarrow> (Inl (Panic p), s')
      | (Inr body, s') \<Rightarrow>
          (case body of
             Inl err \<Rightarrow>
               (Inl (Err (''failed to decode stats for container '' @ containerID @ '': ''
                          @ err)), s')
           | Inr containerStats \<Rightarrow> (Inr containerStats, s')))"

definition StartContainerByID ::
  "'d DockerAPI \<Rightarrow> string \<Rightarrow> 'd process \<Rightarrow> error option \<times> 'd process" where
  "StartContainerByID api containerID s =
     (case invoke (ReqContainerStart containerID ContainerStartOptions_zero)
             (ContainerStart api containerID ContainerStartOptions_zero) s of
        (Inl (Err err), s') \<Rightarrow>
          (Some (Err (''failed to start container '' @ containerID @ '': '' @ err)), s')
      | (Inl (Panic p), s') \<Rightarrow> (Some (Panic p), s')
      | (Inr _, s') \<Rightarrow> (None, s'))"

definition StopContainerByID ::
  "'d DockerAPI \<Rightarrow> string \<Rightarrow> 'd process \<Rightarrow> error option \<times> 'd process" where
  "StopContainerByID api containerID s =
     (let timeout = sint (time_Second * 10);
          stopOpts = \<lparr>Signal = [], StopOptions.Timeout = Some timeout\<rparr>
      in case invoke (ReqContainerStop containerID stopOpts)
                (ContainerStop api containerID stopOpts) s of
           (Inl (Err err), s') \<Rightarrow>
             (Some (Err (''failed to stop container '' @ containerID @ '': '' @ err)), s')
         | (Inl (Panic p), s') \<Rightarrow> (Some (Panic p), s')
         | (Inr _, s') \<Rightarrow> (None, s'))"

definition DeleteContainerByID ::
  "'d DockerAPI \<Rightarrow> string \<Rightarrow> 'd process \<Rightarrow> error option \<times> 'd process" where
  "DeleteContainerByID api containerID s =
     (let opts = \<lparr>RemoveVolumes = False, RemoveLinks = False, Force = True\<rparr>
      in case invoke (ReqContainerRemove containerID opts)
                (ContainerRemove api containerID opts) s of
           (Inl (Err err), s') \<Rightarrow>
             (Some (Err (''failed to remove container '' @ containerID @ '': '' @ err)), s')
         | (Inl (Panic p), s') \<Rightarrow> (Some (Panic p), s')
         | (Inr _, s') \<Rightarrow> (None, s'))"

text \<open>
  \<^verbatim>\<open>UpdateContainerByID\<close>, statement by statement. Reading
  \<^verbatim>\<open>containerInfo.NetworkSettings.Networks\<close>, \<^verbatim>\<open>containerInfo.Config.Image\<close> and the
  promoted fields \<^verbatim>\<open>containerInfo.HostConfig\<close> and \<^verbatim>\<open>containerInfo.Name\<close> dereferences
  a pointer of the inspect result. \<^verbatim>\<open>io.Copy(os.Stdout, out)\<close> writes the pull output to
  standard output and its result is dropped; the deferred \<^verbatim>\<open>out.Close()\<close> changes nothing
  that is modelled.
\<close>

definition UpdateContainerByID ::
  "'d DockerAPI \<Rightarrow> string \<Rightarrow> 'd process \<Rightarrow> error option \<times> 'd process" where
  "UpdateContainerByID api containerID s =
     (case invoke (ReqContainerInspect containerID) (ContainerInspect api containerID) s of
        (Inl (Err err), s1) \<Rightarrow>
          (Some (Err (''failed to get container '' @ containerID @ '' info: '' @ err)), s1)
      | (Inl (Panic p), s1) \<Rightarrow> (Some (Panic p), s1)
      | (Inr containerInfo, s1) \<Rightarrow>
          (case ContainerJSON.NetworkSettings containerInfo of
             None \<Rightarrow> (Some (Panic NilPointerDereference), s1)
           | Some ns \<Rightarrow>
               (let networkConfig = \<lparr>EndpointsConfig = NetworkSettings.Networks ns\<rparr>
                in case ContainerJSON.Config containerInfo of
                     None \<Rightarrow> (Some (Panic NilPointerDereference), s1)
                   | Some cfg \<Rightarrow>
        (case invoke (ReqImagePull (Config.Image cfg) ImagePullOptions_zero)
                (ImagePull api (Config.Image cfg) ImagePullOptions_zero) s1 of
           (Inl (Err err), s2) \<Rightarrow>
             (Some (Err (''failed to pull image '' @ Config.Image cfg @ '': '' @ err)), s2)
         | (Inl (Panic p), s2) \<Rightarrow> (Some (Panic p), s2)
         | (Inr out, s2) \<Rightarrow>
             (let s3 = s2\<lparr>stdout := stdout s2 @ out\<rparr>
              in case ContainerJSONBase containerInfo of
                   None \<Rightarrow> (Some (Panic NilPointerDereference), s3)
                 | Some base \<Rightarrow>
        (case invoke (ReqContainerCreate (Some cfg) (ContainerJSONBase.HostConfig base)
                        (Some networkConfig) None (ContainerJSONBase.Name base))
                (ContainerCreate api (Some cfg) (ContainerJSONBase.HostConfig base)
                        (Some networkConfig) None (ContainerJSONBase.Name base)) s3 of
           (Inl (Err err), s4) \<Rightarrow>
             (Some (Err (''failed to create container from image '' @ Config.Image cfg
                         @ '': '' @ err)), s4)
         | (Inl (Panic p), s4) \<Rightarrow> (Some (Panic p), s4)
         | (Inr resp, s4) \<Rightarrow>
             (case StartContainerByID api (CreateResponse.ID resp) s4 of
                (Some err, s5) \<Rightarrow> (Some err, s5)
              | (None, s5) \<Rightarrow>
                  (case DeleteContainerByID api containerID s5 of
                     (Some err, s6) \<Rightarrow> (Some err, s6)
                   | (None, s6) \<Rightarrow> (None, s6)))))))))"

section \<open>The float64 arithmetic that GetStats uses\<close>

text \<open>
  \<^verbatim>\<open>GetStats\<close> converts unsigned counters to \<^verbatim>\<open>float64\<close>, divides and multiplies.
  Every operand is therefore non-negative, and the non-negative part of IEEE 754 binary64
  is closed under these operations: a value is \<open>NaN\<close>, \<open>+Inf\<close> or a finite
  non-negative rational. An operation computes the exact rational result and rounds it to
  the nearest representable value, ties to the even significand (53 bits, exponents from
  -1022 to 1023, gradual underflow, overflow to \<open>+Inf\<close>). Go does not panic on a
  floating-point division by zero: \<open>x / 0\<close> is \<open>+Inf\<close> for \<open>x > 0\<close> and \<open>0 / 0\<close>
  is \<open>NaN\<close>.
\<close>

datatype float64 = NaN | PosInf | Finite rat

definition pow2 :: "int \<Rightarrow> rat" where
  "pow2 e = (if 0 \<le> e then 2 ^ nat e else 1 / 2 ^ nat (- e))"

text \<open>\<open>binade x\<close> is the exponent \<open>e\<close> with \<open>2^e \<le> x < 2^(e+1)\<close>, for \<open>x > 0\<close>.\<close>

definition binade :: "rat \<Rightarrow> int" where
  "binade x =
     (case quotient_of x of (p, q) \<Rightarrow>
        (let d = bitlen p - bitlen q
         in if x < pow2 d then d - 1 else d))"

definition round_half_even :: "rat \<Rightarrow> int" where
  "round_half_even q =
     (let f = \<lfloor>q\<rfloor>; r = q - of_int f
      in if r < 1 / 2 then f else if 1 / 2 < r then f + 1 else if even f then f else f + 1)"

text \<open>
  The unit in the last place at \<open>x\<close>, and the representable value nearest to \<open>x\<close> when
  the exponent is not bounded above. A result of \<open>2^1024\<close> or more overflows.
\<close>

definition ulp :: "rat \<Rightarrow> rat" where
  "ulp x = pow2 (max (binade x) (- 1022) - 52)"

definition nearest :: "rat \<Rightarrow> rat" where
  "nearest x = (if x = 0 then 0 else of_int (round_half_even (x / ulp x)) * ulp x)"

definition f64_round :: "rat \<Rightarrow> float64" where
  "f64_round x = (if pow2 1024 \<le> nearest x then PosInf else Finite (nearest x))"

text \<open>The conversion \<^verbatim>\<open>float64(n)\<close> of a \<^verbatim>\<open>uint64\<close>.\<close>

definition float64_of_uint64 :: "64 word \<Rightarrow> float64" where
  "float64_of_uint64 n = f64_round (of_int (uint n))"

fun f64_div :: "float64 \<Rightarrow> float64 \<Rightarrow> float64" where
  "f64_div NaN _ = NaN"
| "f64_div _ NaN = NaN"
| "f64_div PosInf PosInf = NaN"
| "f64_div PosInf (Finite y) = PosInf"
| "f64_div (Finite x) PosInf = Finite 0"
| "f64_div (Finite x) (Finite y) =
     (if y = 0 then (if x = 0 then NaN else PosInf) else f64_round (x / y))"

fun f64_mul :: "float64 \<Rightarrow> float64 \<Rightarrow> float64" where
  "f64_mul NaN _ = NaN"
| "f64_mul _ NaN = NaN"
| "f64_mul PosInf PosInf = PosInf"
| "f64_mul PosInf (Finite y) = (if y = 0 then NaN else PosInf)"
| "f64_mul (Finite x) PosInf = (if x = 0 then NaN else PosInf)"
| "f64_mul (Finite x) (Finite y) = f64_round (x * y)"

text \<open>
  \<^verbatim>\<open>fmt.Sprintf("%.2f", x)\<close>: the exact value rounded to two decimals, ties to even;
  \<^verbatim>\<open>NaN\<close> and \<^verbatim>\<open>+Inf\<close> are printed by name.
\<close>

definition digit :: "int \<Rightarrow> char" where
  "digit d = ''0123456789'' ! nat d"

function decimal :: "int \<Rightarrow> string" where
  "decimal n = (if n < 10 then [digit n] else decimal (n div 10) @ [digit (n mod 10)])"
  by pat_completeness auto
termination
  by (relation "measure nat") auto

declare decimal.simps [simp del]

definition Sprintf_2f :: "float64 \<Rightarrow> string" where
  "Sprintf_2f x =
     (case x of
        NaN \<Rightarrow> ''NaN''
      | PosInf \<Rightarrow> ''+Inf''
      | Finite v \<Rightarrow>
          (let n = round_half_even (v * 100)
           in decimal (n div 100) @ ''.'' @ [digit (n mod 100 div 10), digit (n mod 10)]))"

section \<open>Package controllers\<close>

text \<open>
  A handler receives the route parameter \<^verbatim>\<open>c.Param("containerID")\<close> and answers with
  \<^verbatim>\<open>c.JSON(status, body)\<close>, or panics before it answers. The bodies are the
  \<^verbatim>\<open>gin.H\<close> maps the handlers build, one constructor for each key they use. The struct
  types \<^verbatim>\<open>Port\<close> and \<^verbatim>\<open>Container\<close> are the ones declared inside \<^verbatim>\<open>GetContainers\<close>.
  \<^verbatim>\<open>time.Unix(sec, 0).Local()\<close> and \<^verbatim>\<open>json.Marshal(labels)\<close> are kept as the values
  they are applied to.
\<close>

datatype Time = time_Unix "64 word" "64 word"

datatype bytes = json_Marshal "(string \<times> string) list"

record Port =
  IP :: string
  PrivatePort :: "16 word"
  PublicPort :: "16 word"
  Type :: string

record Container =
  ID :: string
  Name :: string
  Image :: string
  ImageID :: string
  Command :: string
  Created :: Time
  State :: string
  Status :: string
  Port :: "Port list"
  SizeRw :: "64 word"
  SizeRootFs :: "64 word"
  NetworkMode :: string
  NetworkSettings :: "string list"
  Mounts :: string
  Labels :: bytes

record containerStats =
  ContainerID :: string
  CPU :: string
  Memory :: string
  NetworkRx :: string
  NetworkTx :: string

datatype H =
    H_error string
  | H_message string
  | H_containerList "Container list"
  | H_stats containerStats

datatype response = JSON nat H

definition TrimPrefix :: "string \<Rightarrow> string \<Rightarrow> string" where
  "TrimPrefix s p = (if take (length p) s = p then drop (length p) s else s)"

definition TrimSuffix :: "string \<Rightarrow> string \<Rightarrow> string" where
  "TrimSuffix s p =
     (if length p \<le> length s \<and> drop (length s - length p) s = p
      then take (length s - length p) s else s)"

text \<open>The three inner loops of \<^verbatim>\<open>GetContainers\<close>, each appending to what it has so far.\<close>

fun ports_loop :: "types_Port list \<Rightarrow> Port list \<Rightarrow> Port list" where
  "ports_loop [] acc = acc"
| "ports_loop (p # ps) acc =
     ports_loop ps (acc @ [\<lparr>IP = types_Port.IP p, PrivatePort = types_Port.PrivatePort p,
                            PublicPort = types_Port.PublicPort p, Type = types_Port.Type p\<rparr>])"

fun networks_loop :: "Networks \<Rightarrow> string list \<Rightarrow> panic + string list" where
  "networks_loop [] acc = Inr acc"
| "networks_loop ((k, n) # ns) acc =
     (case n of
        None \<Rightarrow> Inl NilPointerDereference
      | Some e \<Rightarrow> networks_loop ns (acc @ [NetworkID e]))"

fun mounts_loop :: "MountPoint list \<Rightarrow> string \<Rightarrow> string" where
  "mounts_loop [] acc = acc"
| "mounts_loop (m # ms) acc = mounts_loop ms (acc @ Source m @ '':'' @ Destination m @ '','')"

text \<open>
  The body of the outer loop for one record. \<^verbatim>\<open>container.Names[0]\<close> is the first
  statement that can fail: on an empty slice it panics with an index out of range.
\<close>

definition convert :: "types_Container \<Rightarrow> panic + Container" where
  "convert container =
     (case Names container of
        [] \<Rightarrow> Inl (IndexOutOfRange 0 0)
      | name # _ \<Rightarrow>
          (case types_Container.NetworkSettings container of
             None \<Rightarrow> Inl NilPointerDereference
           | Some ns \<Rightarrow>
               (case networks_loop (SummaryNetworkSettings.Networks ns) [] of
                  Inl p \<Rightarrow> Inl p
                | Inr ids \<Rightarrow>
                    Inr \<lparr>ID = types_Container.ID container,
                         Name = TrimPrefix name ''/'',
                         Image = types_Container.Image container,
                         ImageID = types_Container.ImageID container,
                         Command = types_Container.Command container,
                         Created = time_Unix (types_Container.Created container) 0,
                         State = types_Container.State container,
                         Status = types_Container.Status container,
                         Port = ports_loop (Ports container) [],
                         SizeRw = types_Container.SizeRw container,
                         SizeRootFs = types_Container.SizeRootFs container,
                         NetworkMode =
                           SummaryHostConfig.NetworkMode (types_Container.HostConfig container),
                         NetworkSettings = ids,
                         Mounts = TrimSuffix (mounts_loop (types_Container.Mounts container) [])
                                    '','',
                         Labels = json_Marshal (types_Container.Labels container)\<rparr>)))"

fun containers_loop :: "types_Container list \<Rightarrow> Container list \<Rightarrow> panic + Container list" where
  "containers_loop [] containerList = Inr containerList"
| "containers_loop (container # rest) containerList =
     (case convert container of
        Inl p \<Rightarrow> Inl p
      | Inr data \<Rightarrow> containers_loop rest (containerList @ [data]))"

definition GetContainers :: "'d DockerAPI \<Rightarrow> 'd process \<Rightarrow> (panic + response) \<times> 'd process" where
  "GetContainers api s =
     (case ListContainers api s of
        (Inl (Err err), s') \<Rightarrow> (Inr (JSON 500 (H_error err)), s')
      | (Inl (Panic p), s') \<Rightarrow> (Inl p, s')
      | (Inr containers, s') \<Rightarrow>
          (case containers_loop containers [] of
             Inl p \<Rightarrow> (Inl p, s')
           | Inr containerList \<Rightarrow> (Inr (JSON 200 (H_containerList containerList)), s')))"

text \<open>
  The five values \<^verbatim>\<open>GetStats\<close> computes from the decoded snapshot, under the names of
  its local variables. Indexing a Go map with a key it does not hold gives the zero value
  of the element type, here a \<^verbatim>\<open>types.NetworkStats\<close> with every counter 0.
\<close>

definition NetworkStats_zero :: NetworkStats where
  "NetworkStats_zero = \<lparr>RxBytes = 0, TxBytes = 0\<rparr>"

definition map_index :: "(string \<rightharpoonup> NetworkStats) \<Rightarrow> string \<Rightarrow> NetworkStats" where
  "map_index m k = (case m k of None \<Rightarrow> NetworkStats_zero | Some v \<Rightarrow> v)"

definition cpuUsage :: "StatsJSON \<Rightarrow> float64" where
  "cpuUsage stats =
     f64_mul (f64_div (float64_of_uint64 (TotalUsage (CPUUsage (CPUStats stats))))
                      (float64_of_uint64 (SystemUsage (CPUStats stats))))
             (Finite 100)"

definition memoryUsage :: "StatsJSON \<Rightarrow> float64" where
  "memoryUsage stats =
     f64_div (float64_of_uint64 (Usage (MemoryStats stats))) (Finite (1024 * 1024))"

definition memoryLimit :: "StatsJSON \<Rightarrow> float64" where
  "memoryLimit stats =
     f64_div (float64_of_uint64 (Limit (MemoryStats stats))) (Finite (1024 * 1024))"

definition networkRxBytes :: "StatsJSON \<Rightarrow> float64" where
  "networkRxBytes stats =
     f64_div (float64_of_uint64 (RxBytes (map_index (StatsJSON.Networks stats) ''eth0'')))
             (Finite (1024 * 1024))"

definition networkTxBytes :: "StatsJSON \<Rightarrow> float64" where
  "networkTxBytes stats =
     f64_div (float64_of_uint64 (TxBytes (map_index (StatsJSON.Networks stats) ''eth0'')))
             (Finite (1024 * 1024))"

definition GetStats ::
  "'d DockerAPI \<Rightarrow> string \<Rightarrow> 'd process \<Rightarrow> (panic + response) \<times> 'd process" where
  "GetStats api containerID s =
     (if containerID = [] then (Inr (JSON 400 (H_error ''containerID is empty'')), s)
      else case GetContainerStatsByID api containerID s of
             (Inl (Err err), s') \<Rightarrow> (Inr (JSON 500 (H_error err)), s')
           | (Inl (Panic p), s') \<Rightarrow> (Inl p, s')
           | (Inr stats, s') \<Rightarrow>
               (Inr (JSON 200 (H_stats
                  \<lparr>ContainerID = containerID,
                   CPU = Sprintf_2f (cpuUsage stats) @ ''%'',
                   Memory = Sprintf_2f (memoryUsage stats) @ '' / ''
                            @ Sprintf_2f (memoryLimit stats) @ '' MB'',
                   NetworkRx = Sprintf_2f (networkRxBytes stats) @ '' MB'',
                   NetworkTx = Sprintf_2f (networkTxBytes stats) @ '' MB''\<rparr>)), s'))"

definition StartContainer ::
  "'d DockerAPI \<Rightarrow> string \<Rightarrow> 'd process \<Rightarrow> (panic + response) \<times> 'd process" where
  "StartContainer api containerID s =
     (if containerID = [] then (Inr (JSON 400 (H_error ''containerID is empty'')), s)
      else case StartContainerByID api containerID s of
             (Some (Err err), s') \<Rightarrow> (Inr (JSON 500 (H_error err)), s')
           | (Some (Panic p), s') \<Rightarrow> (Inl p, s')
           | (None, s') \<Rightarrow> (Inr (JSON 200 (H_message ''success'')), s'))"

definition StopContainer ::
  "'d DockerAPI \<Rightarrow> string \<Rightarrow> 'd process \<Rightarrow> (panic + response) \<times> 'd process" where
  "StopContainer api containerID s =
     (if containerID = [] then (Inr (JSON 400 (H_error ''containerID is empty'')), s)
      else case StopContainerByID api containerID s of
             (Some (Err err), s') \<Rightarrow> (Inr (JSON 500 (H_error err)), s')
           | (Some (Panic p), s') \<Rightarrow> (Inl p, s')
           | (None, s') \<Rightarrow> (Inr (JSON 200 (H_message ''success'')), s'))"

definition UpdateContainer ::
  "'d DockerAPI \<Rightarrow> string \<Rightarrow> 'd process \<Rightarrow> (panic + response) \<times> 'd process" where
  "UpdateContainer api containerID s =
     (if containerID = [] then (Inr (JSON 400 (H_error ''containerID is empty'')), s)
      else case UpdateContainerByID api containerID s of
             (Some (Err err), s') \<Rightarrow> (Inr (JSON 500 (H_error err)), s')
           | (Some (Panic p), s') \<Rightarrow> (Inl p, s')
           | (None, s') \<Rightarrow> (Inr (JSON 200 (H_message ''success'')), s'))"

definition DeleteContainer ::
  "'d DockerAPI \<Rightarrow> string \<Rightarrow> 'd process \<Rightarrow> (panic + response) \<times> 'd process" where
  "DeleteContainer api containerID s =
     (if containerID = [] then (Inr (JSON 400 (H_error ''containerID is empty'')), s)
      else case DeleteContainerByID api containerID s of
             (Some (Err err), s') \<Rightarrow> (Inr (JSON 500 (H_error err)), s')
           | (Some (Panic p), s') \<Rightarrow> (Inl p, s')
           | (None, s') \<Rightarrow> (Inr (JSON 200 (H_message ''success'')), s'))"

section \<open>Reading the request log\<close>

text \<open>The events a run has added to the log, from the state before and the state after.\<close>

definition issued :: "'d process \<Rightarrow> 'd process \<Rightarrow> event list" where
  "issued s s' = drop (length (requests s)) (requests s')"

fun is_remove :: "request \<Rightarrow> bool" where
  "is_remove (ReqContainerRemove _ _) = True"
| "is_remove _ = False"

fun is_create :: "request \<Rightarrow> bool" where
  "is_create (ReqContainerCreate _ _ _ _ _) = True"
| "is_create _ = False"

fun is_start :: "request \<Rightarrow> bool" where
  "is_start (ReqContainerStart _ _) = True"
| "is_start _ = False"

fun is_inspect :: "request \<Rightarrow> bool" where
  "is_inspect (ReqContainerInspect _) = True"
| "is_inspect _ = False"

fun is_pull :: "request \<Rightarrow> bool" where
  "is_pull (ReqImagePull _ _) = True"
| "is_pull _ = False"

text \<open>The options of \<^verbatim>\<open>DeleteContainerByID\<close>: \<^verbatim>\<open>types.ContainerRemoveOptions{Force: true}\<close>.\<close>

definition force_remove :: ContainerRemoveOptions where
  "force_remove = \<lparr>RemoveVolumes = False, RemoveLinks = False, Force = True\<rparr>"

section \<open>Daemons and data for concrete runs\<close>

text \<open>
  A daemon that accepts every request and keeps no state, and the answer of one that
  refuses. Single methods are replaced by \<open>refuse\<close> to make one phase fail.
\<close>

definition web_config :: Config where
  "web_config = \<lparr>Config.Image = ''app:latest'', Cmd = [''serve''], Env = [''PORT=80'']\<rparr>"

definition web_host :: HostConfig where
  "web_host = \<lparr>Binds = [''/srv:/data''], HostConfig.NetworkMode = ''bridge'',
                RestartPolicy = ''always''\<rparr>"

definition web_networks :: Networks where
  "web_networks = [(''bridge'', Some \<lparr>NetworkID = ''n1'', IPAddress = ''172.17.0.2''\<rparr>)]"

definition web_info :: ContainerJSON where
  "web_info =
     \<lparr>ContainerJSONBase = Some \<lparr>ContainerJSONBase.ID = ''abc123'',
                                ContainerJSONBase.Name = ''/web'',
                                ContainerJSONBase.HostConfig = Some web_host\<rparr>,
      Config = Some web_config,
      ContainerJSON.NetworkSettings = Some \<lparr>NetworkSettings.Networks = web_networks\<rparr>\<rparr>"

definition idle_stats :: StatsJSON where
  "idle_stats =
     \<lparr>CPUStats = \<lparr>CPUUsage = \<lparr>TotalUsage = 0, PercpuUsage = [], UsageInKernelmode = 0,
                                UsageInUsermode = 0\<rparr>,
                   SystemUsage = 0, OnlineCPUs = 0\<rparr>,
      PreCPUStats = \<lparr>CPUUsage = \<lparr>TotalUsage = 0, PercpuUsage = [], UsageInKernelmode = 0,
                                   UsageInUsermode = 0\<rparr>,
                      SystemUsage = 0, OnlineCPUs = 0\<rparr>,
      MemoryStats = \<lparr>Usage = 0, Limit = 0\<rparr>,
      StatsJSON.Networks = Map.empty\<rparr>"

definition refuse :: "'d \<Rightarrow> (string + 'a) \<times> 'd" where
  "refuse d = (Inl ''refused'', d)"

definition accepting :: "'d DockerAPI" where
  "accepting =
     \<lparr>Ping = (\<lambda>d. (Inr (), d)),
      ContainerList = (\<lambda>opts d. (Inr [], d)),
      ContainerStats = (\<lambda>containerID stream d. (Inr (Inr idle_stats), d)),
      ContainerStart = (\<lambda>containerID opts d. (Inr (), d)),
      ContainerStop = (\<lambda>containerID opts d. (Inr (), d)),
      ContainerInspect = (\<lambda>containerID d. (Inr web_info, d)),
      ImagePull = (\<lambda>ref opts d. (Inr ''Pulling from library/app'', d)),
      ContainerCreate = (\<lambda>config hostConfig networkingConfig platform containerName d.
         (Inr \<lparr>CreateResponse.ID = ''def456'', Warnings = []\<rparr>, d)),
      ContainerRemove = (\<lambda>containerID opts d. (Inr (), d))\<rparr>"

text \<open>
  A daemon that keeps a journal: its state is the list of the calls it has received, each
  with its arguments, and it answers as the accepting one does.
\<close>

definition recording :: "request list DockerAPI" where
  "recording =
     \<lparr>Ping = (\<lambda>d. (Inr (), d @ [ReqPing])),
      ContainerList = (\<lambda>opts d. (Inr [], d @ [ReqContainerList opts])),
      ContainerStats = (\<lambda>containerID stream d.
         (Inr (Inr idle_stats), d @ [ReqContainerStats containerID stream])),
      ContainerStart = (\<lambda>containerID opts d. (Inr (), d @ [ReqContainerStart containerID opts])),
      ContainerStop = (\<lambda>containerID opts d. (Inr (), d @ [ReqContainerStop containerID opts])),
      ContainerInspect = (\<lambda>containerID d. (Inr web_info, d @ [ReqContainerInspect containerID])),
      ImagePull = (\<lambda>ref opts d. (Inr ''Pulling from library/app'', d @ [ReqImagePull ref opts])),
      ContainerCreate = (\<lambda>config hostConfig networkingConfig platform containerName d.
         (Inr \<lparr>CreateResponse.ID = ''def456'', Warnings = []\<rparr>,
          d @ [ReqContainerCreate config hostConfig networkingConfig platform containerName])),
      ContainerRemove = (\<lambda>containerID opts d.
         (Inr (), d @ [ReqContainerRemove containerID opts]))\<rparr>"

definition a_client :: Client where
  "a_client =
     \<lparr>opts = \<lparr>WithHTTPClient = \<lparr>Certificates = [''cert''], RootCAs = ''ca'',
                                   http_Client.Timeout = time_Second * 10\<rparr>,
               WithAPIVersionNegotiation = True,
               WithHost = ''tcp://docker.example:2376'',
               WithTLSClientConfig =
                 (Join ''/certs'' ''ca.crt'', Join ''/certs'' ''client.crt'',
                  Join ''/certs'' ''client.key'')\<rparr>\<rparr>"

text \<open>A process that has connected, and one that has not (\<^verbatim>\<open>cli\<close> is still \<^verbatim>\<open>nil\<close>).\<close>

definition connected :: "'d \<Rightarrow> 'd process" where
  "connected d = \<lparr>cli = Some a_client, daemon = d, requests = [], stdout = []\<rparr>"

definition fresh :: "'d \<Rightarrow> 'd process" where
  "fresh d = \<lparr>cli = None, daemon = d, requests = [], stdout = []\<rparr>"

definition an_environment :: environment where
  "an_environment =
     \<lparr>Getenv = (\<lambda>k. if k = ''CERT_PATH'' then ''/certs''
                      else if k = ''DOCKER_HOST'' then ''docker.example''
                      else if k = ''DOCKER_PORT'' then ''2376'' else []),
      LoadX509KeyPair = (\<lambda>certFile keyFile. Inr ''cert''),
      ReadFile = (\<lambda>name. Inr ''ca''),
      NewClientWithOpts = (\<lambda>given. Inr \<lparr>opts = given\<rparr>)\<rparr>"

text \<open>
  A daemon whose state is the list of the containers it knows, for the one claim that
  depends on what the daemon does with the list options. Its \<^verbatim>\<open>ContainerList\<close> follows
  the Docker Engine API (\<^verbatim>\<open>GET /containers/json\<close>, parameter \<^verbatim>\<open>all\<close>: ``Return all
  containers. By default, only running containers are shown''): without \<^verbatim>\<open>All\<close> it
  answers with the containers whose process runs, which are the ones in the states
  \<^verbatim>\<open>running\<close>, \<^verbatim>\<open>paused\<close> and \<^verbatim>\<open>restarting\<close>. The other list options are not
  modelled; the package leaves them at their zero values.
\<close>

definition shown_by_default :: "types_Container \<Rightarrow> bool" where
  "shown_by_default c =
     (types_Container.State c = ''running'' \<or> types_Container.State c = ''paused''
      \<or> types_Container.State c = ''restarting'')"

definition dockerd :: "types_Container list DockerAPI" where
  "dockerd =
     accepting\<lparr>ContainerList :=
       (\<lambda>opts known.
          (Inr (filter (\<lambda>c. ContainerListOptions.All opts \<or> shown_by_default c) known),
           known))\<rparr>"

definition a_container :: "string \<Rightarrow> string \<Rightarrow> string \<Rightarrow> types_Container" where
  "a_container containerID name state =
     \<lparr>types_Container.ID = containerID, Names = [name],
      types_Container.Image = ''app:latest'', types_Container.ImageID = ''sha256:0f'',
      types_Container.Command = ''serve'', types_Container.Created = 1700000000,
      Ports = [], types_Container.SizeRw = 0, types_Container.SizeRootFs = 0,
      types_Container.Labels = [], types_Container.State = state,
      types_Container.Status = [],
      types_Container.HostConfig = \<lparr>SummaryHostConfig.NetworkMode = ''bridge''\<rparr>,
      types_Container.NetworkSettings =
        Some \<lparr>SummaryNetworkSettings.Networks = web_networks\<rparr>,
      types_Container.Mounts = []\<rparr>"

text \<open>
  A record of the list answer none of whose pointers is \<^verbatim>\<open>nil\<close>: it has its network
  settings, and every endpoint in them is there.
\<close>

definition no_nil_pointer :: "types_Container \<Rightarrow> bool" where
  "no_nil_pointer c =
     (case types_Container.NetworkSettings c of
        None \<Rightarrow> False
      | Some ns \<Rightarrow> list_all (\<lambda>kn. snd kn \<noteq> None) (SummaryNetworkSettings.Networks ns))"

text \<open>
  A snapshot of a running container: 300 of 400 units of CPU time so far, 200 of 200 at
  the previous sample, 50 MB of 100 MB of memory, and one interface, which is not
  \<^verbatim>\<open>eth0\<close>.
\<close>

definition busy_stats :: StatsJSON where
  "busy_stats =
     \<lparr>CPUStats = \<lparr>CPUUsage = \<lparr>TotalUsage = 300, PercpuUsage = [300], UsageInKernelmode = 100,
                                UsageInUsermode = 200\<rparr>,
                   SystemUsage = 400, OnlineCPUs = 1\<rparr>,
      PreCPUStats = \<lparr>CPUUsage = \<lparr>TotalUsage = 200, PercpuUsage = [200],
                                   UsageInKernelmode = 100, UsageInUsermode = 100\<rparr>,
                      SystemUsage = 200, OnlineCPUs = 1\<rparr>,
      MemoryStats = \<lparr>Usage = 52428800, Limit = 104857600\<rparr>,
      StatsJSON.Networks = [''ens3'' \<mapsto> \<lparr>RxBytes = 5242880, TxBytes = 1048576\<rparr>]\<rparr>"

text \<open>
  A one-core snapshot whose container counter (500) is ahead of the system counter (100),
  and a daemon that answers every stats request with a given snapshot.
\<close>

definition overcounted_stats :: StatsJSON where
  "overcounted_stats =
     busy_stats\<lparr>CPUStats :=
       \<lparr>CPUUsage = \<lparr>TotalUsage = 500, PercpuUsage = [500], UsageInKernelmode = 0,
                     UsageInUsermode = 500\<rparr>,
        SystemUsage = 100, OnlineCPUs = 1\<rparr>\<rparr>"

definition reporting :: "StatsJSON \<Rightarrow> 'd DockerAPI" where
  "reporting stats =
     accepting\<lparr>ContainerStats := (\<lambda>containerID stream d. (Inr (Inr stats), d))\<rparr>"

section \<open>The formula of the specification, for comparison\<close>

text \<open>
  The specification derives the CPU percentage from deltas: the usage counters of the
  snapshot less the counters of the previous sample that the daemon reports with it
  (\<^verbatim>\<open>precpu_stats\<close>), the container's delta over the system's delta, times 100. This
  definition follows those words, with the arithmetic of the code.
\<close>

definition spec_cpu_percent :: "StatsJSON \<Rightarrow> float64" where
  "spec_cpu_percent stats =
     f64_mul
       (f64_div
          (float64_of_uint64 (TotalUsage (CPUUsage (CPUStats stats))
                              - TotalUsage (CPUUsage (PreCPUStats stats))))
          (float64_of_uint64 (SystemUsage (CPUStats stats) - SystemUsage (PreCPUStats stats))))
       (Finite 100)"

section \<open>Calls on the package variable\<close>

lemma invoke_None:
  "cli s = None \<Longrightarrow> invoke rq m s = (Inl (Panic NilPointerDereference), s)"
  by (simp add: invoke_def)

lemma invoke_Inl:
  "cli s = Some c \<Longrightarrow> m (daemon s) = (Inl err, d') \<Longrightarrow>
   invoke rq m s =
     (Inl (Err err), s\<lparr>daemon := d', requests := requests s @ [(rq, Some err)]\<rparr>)"
  by (simp add: invoke_def)

lemma invoke_Inr:
  "cli s = Some c \<Longrightarrow> m (daemon s) = (Inr v, d') \<Longrightarrow>
   invoke rq m s = (Inr v, s\<lparr>daemon := d', requests := requests s @ [(rq, None)]\<rparr>)"
  by (simp add: invoke_def)

lemma issued_append [simp]:
  "requests s' = requests s @ evs \<Longrightarrow> issued s s' = evs"
  by (simp add: issued_def)

lemma issued_same [simp]: "issued s s = []"
  by (simp add: issued_def)

section \<open>The runs of UpdateContainerByID\<close>

text \<open>
  Every run of \<^verbatim>\<open>UpdateContainerByID\<close> ends in one of nine ways; each fixes the result,
  the answers of the daemon on the way, and the final state with the events added to the log.
\<close>

lemma UpdateContainerByID_cases [consumes 1, case_names nil_client inspect_failed inspect_nil
    pull_failed base_nil create_failed start_failed remove_failed completed]:
  assumes "UpdateContainerByID api containerID s = (r, s')"
  obtains
    "cli s = None" "r = Some (Panic NilPointerDereference)" "s' = s"
  | err d1 where "cli s \<noteq> None"
      "ContainerInspect api containerID (daemon s) = (Inl err, d1)"
      "r = Some (Err (''failed to get container '' @ containerID @ '' info: '' @ err))"
      "s' = s\<lparr>daemon := d1, requests := requests s @
          [(ReqContainerInspect containerID, Some err)]\<rparr>"
  | info d1 where "cli s \<noteq> None"
      "ContainerInspect api containerID (daemon s) = (Inr info, d1)"
      "ContainerJSON.NetworkSettings info = None \<or> ContainerJSON.Config info = None"
      "r = Some (Panic NilPointerDereference)"
      "s' = s\<lparr>daemon := d1, requests := requests s @
          [(ReqContainerInspect containerID, None)]\<rparr>"
  | info d1 ns cfg err d2 where "cli s \<noteq> None"
      "ContainerInspect api containerID (daemon s) = (Inr info, d1)"
      "ContainerJSON.NetworkSettings info = Some ns" "ContainerJSON.Config info = Some cfg"
      "ImagePull api (Config.Image cfg) ImagePullOptions_zero d1 = (Inl err, d2)"
      "r = Some (Err (''failed to pull image '' @ Config.Image cfg @ '': '' @ err))"
      "s' = s\<lparr>daemon := d2, requests := requests s @
          [(ReqContainerInspect containerID, None),
           (ReqImagePull (Config.Image cfg) ImagePullOptions_zero, Some err)]\<rparr>"
  | info d1 ns cfg out d2 where "cli s \<noteq> None"
      "ContainerInspect api containerID (daemon s) = (Inr info, d1)"
      "ContainerJSON.NetworkSettings info = Some ns" "ContainerJSON.Config info = Some cfg"
      "ImagePull api (Config.Image cfg) ImagePullOptions_zero d1 = (Inr out, d2)"
      "ContainerJSONBase info = None"
      "r = Some (Panic NilPointerDereference)"
      "s' = s\<lparr>daemon := d2, requests := requests s @
          [(ReqContainerInspect containerID, None),
           (ReqImagePull (Config.Image cfg) ImagePullOptions_zero, None)],
          stdout := stdout s @ out\<rparr>"
  | info d1 ns cfg out d2 base err d3 where "cli s \<noteq> None"
      "ContainerInspect api containerID (daemon s) = (Inr info, d1)"
      "ContainerJSON.NetworkSettings info = Some ns" "ContainerJSON.Config info = Some cfg"
      "ImagePull api (Config.Image cfg) ImagePullOptions_zero d1 = (Inr out, d2)"
      "ContainerJSONBase info = Some base"
      "ContainerCreate api (Some cfg) (ContainerJSONBase.HostConfig base)
              (Some \<lparr>EndpointsConfig = NetworkSettings.Networks ns\<rparr>) None (ContainerJSONBase.Name base) d2
         = (Inl err, d3)"
      "r = Some (Err (''failed to create container from image '' @ Config.Image cfg @ '': ''
                      @ err))"
      "s' = s\<lparr>stdout := stdout s @ out, daemon := d3, requests := requests s @
          [(ReqContainerInspect containerID, None),
           (ReqImagePull (Config.Image cfg) ImagePullOptions_zero, None),
           (ReqContainerCreate (Some cfg) (ContainerJSONBase.HostConfig base)
              (Some \<lparr>EndpointsConfig = NetworkSettings.Networks ns\<rparr>) None (ContainerJSONBase.Name base), Some err)]\<rparr>"
  | info d1 ns cfg out d2 base resp d3 err d4 where "cli s \<noteq> None"
      "ContainerInspect api containerID (daemon s) = (Inr info, d1)"
      "ContainerJSON.NetworkSettings info = Some ns" "ContainerJSON.Config info = Some cfg"
      "ImagePull api (Config.Image cfg) ImagePullOptions_zero d1 = (Inr out, d2)"
      "ContainerJSONBase info = Some base"
      "ContainerCreate api (Some cfg) (ContainerJSONBase.HostConfig base)
              (Some \<lparr>EndpointsConfig = NetworkSettings.Networks ns\<rparr>) None (ContainerJSONBase.Name base) d2
         = (Inr resp, d3)"
      "ContainerStart api (CreateResponse.ID resp) ContainerStartOptions_zero d3 = (Inl err, d4)"
      "r = Some (Err (''failed to start container '' @ CreateResponse.ID resp @ '': '' @ err))"
      "s' = s\<lparr>stdout := stdout s @ out, daemon := d4, requests := requests s @
          [(ReqContainerInspect containerID, None),
           (ReqImagePull (Config.Image cfg) ImagePullOptions_zero, None),
           (ReqContainerCreate (Some cfg) (ContainerJSONBase.HostConfig base)
              (Some \<lparr>EndpointsConfig = NetworkSettings.Networks ns\<rparr>) None (ContainerJSONBase.Name base), None),
           (ReqContainerStart (CreateResponse.ID resp) ContainerStartOptions_zero, Some err)]\<rparr>"
  | info d1 ns cfg out d2 base resp d3 d4 err d5 where "cli s \<noteq> None"
      "ContainerInspect api containerID (daemon s) = (Inr info, d1)"
      "ContainerJSON.NetworkSettings info = Some ns" "ContainerJSON.Config info = Some cfg"
      "ImagePull api (Config.Image cfg) ImagePullOptions_zero d1 = (Inr out, d2)"
      "ContainerJSONBase info = Some base"
      "ContainerCreate api (Some cfg) (ContainerJSONBase.HostConfig base)
              (Some \<lparr>EndpointsConfig = NetworkSettings.Networks ns\<rparr>) None (ContainerJSONBase.Name base) d2
         = (Inr resp, d3)"
      "ContainerStart api (CreateResponse.ID resp) ContainerStartOptions_zero d3 = (Inr (), d4)"
      "ContainerRemove api containerID force_remove d4 = (Inl err, d5)"
      "r = Some (Err (''failed to remove container '' @ containerID @ '': '' @ err))"
      "s' = s\<lparr>stdout := stdout s @ out, daemon := d5, requests := requests s @
          [(ReqContainerInspect containerID, None),
           (ReqImagePull (Config.Image cfg) ImagePullOptions_zero, None),
           (ReqContainerCreate (Some cfg) (ContainerJSONBase.HostConfig base)
              (Some \<lparr>EndpointsConfig = NetworkSettings.Networks ns\<rparr>) None (ContainerJSONBase.Name base), None),
           (ReqContainerStart (CreateResponse.ID resp) ContainerStartOptions_zero, None),
           (ReqContainerRemove containerID force_remove, Some err)]\<rparr>"
  | info d1 ns cfg out d2 base resp d3 d4 d5 where "cli s \<noteq> None"
      "ContainerInspect api containerID (daemon s) = (Inr info, d1)"
      "ContainerJSON.NetworkSettings info = Some ns" "ContainerJSON.Config info = Some cfg"
      "ImagePull api (Config.Image cfg) ImagePullOptions_zero d1 = (Inr out, d2)"
      "ContainerJSONBase info = Some base"
      "ContainerCreate api (Some cfg) (ContainerJSONBase.HostConfig base)
              (Some \<lparr>EndpointsConfig = NetworkSettings.Networks ns\<rparr>) None (ContainerJSONBase.Name base) d2
         = (Inr resp, d3)"
      "ContainerStart api (CreateResponse.ID resp) ContainerStartOptions_zero d3 = (Inr (), d4)"
      "ContainerRemove api containerID force_remove d4 = (Inr (), d5)"
      "r = None"
      "s' = s\<lparr>stdout := stdout s @ out, daemon := d5, requests := requests s @
          [(ReqContainerInspect containerID, None),
           (ReqImagePull (Config.Image cfg) ImagePullOptions_zero, None),
           (ReqContainerCreate (Some cfg) (ContainerJSONBase.HostConfig base)
              (Some \<lparr>EndpointsConfig = NetworkSettings.Networks ns\<rparr>) None (ContainerJSONBase.Name base), None),
           (ReqContainerStart (CreateResponse.ID resp) ContainerStartOptions_zero, None),
           (ReqContainerRemove containerID force_remove, None)]\<rparr>"
proof (cases "cli s")
  case None
  then have "UpdateContainerByID api containerID s = (Some (Panic NilPointerDereference), s)"
    by (simp add: UpdateContainerByID_def invoke_None)
  with assms have "r = Some (Panic NilPointerDereference)" "s' = s" by simp_all
  with None show ?thesis by (rule that(1))
next
  case (Some c)
  then have c: "cli s \<noteq> None" by simp
  obtain r1 d1 where i: "ContainerInspect api containerID (daemon s) = (r1, d1)"
    by (cases "ContainerInspect api containerID (daemon s)")
  show ?thesis
  proof (cases r1)
    case (Inl err)
    show ?thesis
      by (rule that(2) [of err d1])
         (use assms Some i Inl in \<open>simp_all add: UpdateContainerByID_def invoke_Inl\<close>)
  next
    case (Inr info)
    note inspected = i [unfolded Inr]
    let ?s1 = "s\<lparr>daemon := d1,
                 requests := requests s @ [(ReqContainerInspect containerID, None)]\<rparr>"
    have s1: "invoke (ReqContainerInspect containerID) (ContainerInspect api containerID) s
                = (Inr info, ?s1)"
      using Some inspected by (simp add: invoke_Inr)
    show ?thesis
    proof (cases "ContainerJSON.NetworkSettings info")
      case None
      show ?thesis
        by (rule that(3) [of info d1])
           (use assms s1 None c inspected in \<open>simp_all add: UpdateContainerByID_def\<close>)
    next
      case ns: (Some ns)
      show ?thesis
      proof (cases "ContainerJSON.Config info")
        case None
        show ?thesis
          by (rule that(3) [of info d1])
             (use assms s1 ns None c inspected in \<open>simp_all add: UpdateContainerByID_def\<close>)
      next
        case cfg: (Some cfg)
        obtain r2 d2 where
          p: "ImagePull api (Config.Image cfg) ImagePullOptions_zero d1 = (r2, d2)"
          by (cases "ImagePull api (Config.Image cfg) ImagePullOptions_zero d1")
        show ?thesis
        proof (cases r2)
          case (Inl err)
          show ?thesis
            by (rule that(4) [of info d1 ns cfg err d2])
               (use assms s1 ns cfg Some p Inl c inspected in
                 \<open>simp_all add: UpdateContainerByID_def invoke_Inl\<close>)
        next
          case out: (Inr out)
          note pulled = p [unfolded out]
          let ?s2 = "?s1\<lparr>daemon := d2, requests := requests ?s1 @
                        [(ReqImagePull (Config.Image cfg) ImagePullOptions_zero, None)]\<rparr>"
          have s2: "invoke (ReqImagePull (Config.Image cfg) ImagePullOptions_zero)
                      (ImagePull api (Config.Image cfg) ImagePullOptions_zero) ?s1
                    = (Inr out, ?s2)"
            using Some pulled by (simp add: invoke_Inr)
          show ?thesis
          proof (cases "ContainerJSONBase info")
            case None
            show ?thesis
              by (rule that(5) [of info d1 ns cfg out d2])
                 (use assms s1 s2 ns cfg None c inspected pulled in
                   \<open>simp_all add: UpdateContainerByID_def\<close>)
          next
            case base: (Some base)
            let ?nc = "\<lparr>EndpointsConfig = NetworkSettings.Networks ns\<rparr>"
            let ?rq = "ReqContainerCreate (Some cfg) (ContainerJSONBase.HostConfig base)
                         (Some ?nc) None (ContainerJSONBase.Name base)"
            let ?s3 = "?s2\<lparr>stdout := stdout ?s2 @ out\<rparr>"
            obtain r3 d3 where
              cr: "ContainerCreate api (Some cfg) (ContainerJSONBase.HostConfig base)
                     (Some ?nc) None (ContainerJSONBase.Name base) d2 = (r3, d3)"
              by (cases "ContainerCreate api (Some cfg) (ContainerJSONBase.HostConfig base)
                     (Some ?nc) None (ContainerJSONBase.Name base) d2")
            have upd: "UpdateContainerByID api containerID s =
               (case invoke ?rq (ContainerCreate api (Some cfg)
                        (ContainerJSONBase.HostConfig base) (Some ?nc) None (ContainerJSONBase.Name base)) ?s3 of
                  (Inl (Err err), s4) \<Rightarrow>
                    (Some (Err (''failed to create container from image '' @ Config.Image cfg
                                @ '': '' @ err)), s4)
                | (Inl (Panic p), s4) \<Rightarrow> (Some (Panic p), s4)
                | (Inr resp, s4) \<Rightarrow>
                    (case StartContainerByID api (CreateResponse.ID resp) s4 of
                       (Some err, s5) \<Rightarrow> (Some err, s5)
                     | (None, s5) \<Rightarrow>
                         (case DeleteContainerByID api containerID s5 of
                            (Some err, s6) \<Rightarrow> (Some err, s6)
                          | (None, s6) \<Rightarrow> (None, s6))))"
              using s1 s2 ns cfg base by (simp add: UpdateContainerByID_def Let_def)
            show ?thesis
            proof (cases r3)
              case (Inl err)
              show ?thesis
                by (rule that(6) [of info d1 ns cfg out d2 base err d3])
                   (use assms upd Some cr Inl c inspected pulled ns cfg base in
                     \<open>simp_all add: invoke_Inl\<close>)
            next
              case resp: (Inr resp)
              note created = cr [unfolded resp]
              let ?s4 = "?s3\<lparr>daemon := d3, requests := requests ?s3 @ [(?rq, None)]\<rparr>"
              have s4: "invoke ?rq (ContainerCreate api (Some cfg)
                          (ContainerJSONBase.HostConfig base) (Some ?nc) None (ContainerJSONBase.Name base)) ?s3
                        = (Inr resp, ?s4)"
                using Some created by (simp add: invoke_Inr)
              obtain r4 d4 where
                st: "ContainerStart api (CreateResponse.ID resp) ContainerStartOptions_zero d3
                     = (r4, d4)"
                by (cases "ContainerStart api (CreateResponse.ID resp)
                             ContainerStartOptions_zero d3")
              show ?thesis
              proof (cases r4)
                case (Inl err)
                show ?thesis
                  by (rule that(7) [of info d1 ns cfg out d2 base resp d3 err d4])
                     (use assms upd s4 Some st Inl c inspected pulled ns cfg base created in
                       \<open>simp_all add: StartContainerByID_def invoke_Inl\<close>)
              next
                case (Inr u)
                note started = st [unfolded Inr]
                let ?s5 = "?s4\<lparr>daemon := d4, requests := requests ?s4 @
                    [(ReqContainerStart (CreateResponse.ID resp) ContainerStartOptions_zero,
                      None)]\<rparr>"
                have s5: "StartContainerByID api (CreateResponse.ID resp) ?s4 = (None, ?s5)"
                  using Some started by (simp add: StartContainerByID_def invoke_Inr)
                obtain r5 d5 where
                  rm: "ContainerRemove api containerID force_remove d4 = (r5, d5)"
                  by (cases "ContainerRemove api containerID force_remove d4")
                show ?thesis
                proof (cases r5)
                  case (Inl err)
                  show ?thesis
                    by (rule that(8) [of info d1 ns cfg out d2 base resp d3 d4 err d5])
                       (use assms upd s4 s5 Some rm Inl c inspected pulled ns cfg base created
                          started in
                         \<open>simp_all add: DeleteContainerByID_def invoke_Inl force_remove_def\<close>)
                next
                  case (Inr u')
                  show ?thesis
                    by (rule that(9) [of info d1 ns cfg out d2 base resp d3 d4 d5])
                       (use assms upd s4 s5 Some rm Inr c inspected pulled ns cfg base created
                          started in
                         \<open>simp_all add: DeleteContainerByID_def invoke_Inr force_remove_def\<close>)
                qed
              qed
            qed
          qed
        qed
      qed
    qed
  qed
qed

section \<open>Concrete runs\<close>

lemma connected_simps [simp]:
  "cli (connected d) = Some a_client" "daemon (connected d) = d"
  "requests (connected d) = []" "stdout (connected d) = []"
  by (simp_all add: connected_def)

lemma accepting_update_run:
  "UpdateContainerByID accepting ''abc123'' (connected ()) =
   (None,
    \<lparr>cli = Some a_client, daemon = (),
      requests = [(ReqContainerInspect ''abc123'', None),
                  (ReqImagePull ''app:latest'' ImagePullOptions_zero, None),
                  (ReqContainerCreate (Some web_config) (Some web_host)
                     (Some \<lparr>EndpointsConfig = web_networks\<rparr>) None ''/web'', None),
                  (ReqContainerStart ''def456'' ContainerStartOptions_zero, None),
                  (ReqContainerRemove ''abc123'' force_remove, None)],
      stdout = ''Pulling from library/app''\<rparr>)"
  by (simp add: UpdateContainerByID_def StartContainerByID_def DeleteContainerByID_def
        invoke_def accepting_def connected_def web_info_def web_config_def refuse_def
        force_remove_def Let_def)

lemma refused_start_update_run:
  "UpdateContainerByID (accepting\<lparr>ContainerStart := \<lambda>containerID opts. refuse\<rparr>) ''abc123''
     (connected ()) =
   (Some (Err ''failed to start container def456: refused''),
    \<lparr>cli = Some a_client, daemon = (),
      requests = [(ReqContainerInspect ''abc123'', None),
                  (ReqImagePull ''app:latest'' ImagePullOptions_zero, None),
                  (ReqContainerCreate (Some web_config) (Some web_host)
                     (Some \<lparr>EndpointsConfig = web_networks\<rparr>) None ''/web'', None),
                  (ReqContainerStart ''def456'' ContainerStartOptions_zero, Some ''refused'')],
      stdout = ''Pulling from library/app''\<rparr>)"
  by (simp add: UpdateContainerByID_def StartContainerByID_def DeleteContainerByID_def
        invoke_def accepting_def connected_def web_info_def web_config_def refuse_def
        force_remove_def Let_def)

lemma refused_inspect_update_run:
  "UpdateContainerByID (accepting\<lparr>ContainerInspect := \<lambda>containerID. refuse\<rparr>) ''abc123''
     (connected ()) =
   (Some (Err ''failed to get container abc123 info: refused''),
    \<lparr>cli = Some a_client, daemon = (),
      requests = [(ReqContainerInspect ''abc123'', Some ''refused'')], stdout = []\<rparr>)"
  by (simp add: UpdateContainerByID_def invoke_def accepting_def connected_def refuse_def)

lemma refused_pull_update_run:
  "UpdateContainerByID (accepting\<lparr>ImagePull := \<lambda>ref opts. refuse\<rparr>) ''abc123''
     (connected ()) =
   (Some (Err ''failed to pull image app:latest: refused''),
    \<lparr>cli = Some a_client, daemon = (),
      requests = [(ReqContainerInspect ''abc123'', None),
                  (ReqImagePull ''app:latest'' ImagePullOptions_zero, Some ''refused'')],
      stdout = []\<rparr>)"
  by (simp add: UpdateContainerByID_def invoke_def accepting_def connected_def refuse_def
        web_info_def web_config_def Let_def)

section \<open>The recreate workflow\<close>

text \<open>
  Claim C1. In the recreate workflow the original container is removed only after the
  replacement has been created and started. Whenever a run of \<^verbatim>\<open>UpdateContainerByID\<close>
  issues a remove request, the events of the run are exactly: the inspect, the pull, the
  create and the start of the container that the create returned, all four without error,
  and then that remove, for the original container with the force flag. And a run in which
  a request other than the remove fails (the inspect, the pull, the create or the start)
  issues no remove request at all.
\<close>

theorem update_removes_only_after_start:
  assumes "UpdateContainerByID api containerID s = (r, s')"
  shows "(\<forall>ev \<in> set (issued s s'). is_remove (fst ev) \<longrightarrow>
            (\<exists>image cfg hostcfg netcfg name d resp d'.
                ContainerCreate api cfg hostcfg netcfg None name d = (Inr resp, d') \<and>
                issued s s' =
                  [(ReqContainerInspect containerID, None),
                   (ReqImagePull image ImagePullOptions_zero, None),
                   (ReqContainerCreate cfg hostcfg netcfg None name, None),
                   (ReqContainerStart (CreateResponse.ID resp) ContainerStartOptions_zero, None),
                   ev] \<and>
                fst ev = ReqContainerRemove containerID force_remove))
       \<and> ((\<exists>rq err. (rq, Some err) \<in> set (issued s s') \<and> \<not> is_remove rq) \<longrightarrow>
            (\<forall>ev \<in> set (issued s s'). \<not> is_remove (fst ev)))"
  using assms
proof (cases rule: UpdateContainerByID_cases)
  case (remove_failed info d1 ns cfg out d2 base resp d3 d4 err d5)
  then show ?thesis by (simp (no_asm_simp)) blast
next
  case (completed info d1 ns cfg out d2 base resp d3 d4 d5)
  then show ?thesis by (simp (no_asm_simp)) blast
qed simp_all

theorem update_removes_only_after_start_witness:
  "fst (UpdateContainerByID accepting ''abc123'' (connected ())) = None \<and>
   (\<exists>ev \<in> set (issued (connected ())
                  (snd (UpdateContainerByID accepting ''abc123'' (connected ())))).
       is_remove (fst ev)) \<and>
   (\<exists>rq err. (rq, Some err) \<in> set (issued (connected ())
        (snd (UpdateContainerByID (accepting\<lparr>ContainerStart := \<lambda>containerID opts. refuse\<rparr>)
                ''abc123'' (connected ())))) \<and> \<not> is_remove rq) \<and>
   \<not> (\<exists>ev \<in> set (issued (connected ())
        (snd (UpdateContainerByID (accepting\<lparr>ContainerStart := \<lambda>containerID opts. refuse\<rparr>)
                ''abc123'' (connected ())))). is_remove (fst ev))"
proof -
  let ?s1 = "snd (UpdateContainerByID accepting ''abc123'' (connected ()))"
  let ?s2 = "snd (UpdateContainerByID (accepting\<lparr>ContainerStart := \<lambda>containerID opts. refuse\<rparr>)
                ''abc123'' (connected ()))"
  have a: "fst (UpdateContainerByID accepting ''abc123'' (connected ())) = None"
    by (simp add: accepting_update_run)
  have "(ReqContainerRemove ''abc123'' force_remove, None) \<in> set (issued (connected ()) ?s1)"
    by (simp add: accepting_update_run issued_def)
  then have b: "\<exists>ev \<in> set (issued (connected ()) ?s1). is_remove (fst ev)"
    by (rule bexI [rotated]) simp
  have "(ReqContainerStart ''def456'' ContainerStartOptions_zero, Some ''refused'')
          \<in> set (issued (connected ()) ?s2)"
    by (simp add: refused_start_update_run issued_def)
  then have c: "\<exists>rq err. (rq, Some err) \<in> set (issued (connected ()) ?s2) \<and> \<not> is_remove rq"
    by (intro exI [of _ "ReqContainerStart ''def456'' ContainerStartOptions_zero"]
              exI [of _ "''refused''"]) simp
  have "UpdateContainerByID (accepting\<lparr>ContainerStart := \<lambda>containerID opts. refuse\<rparr>)
          ''abc123'' (connected ()) = (Some (Err ''failed to start container def456: refused''), ?s2)"
    by (simp add: refused_start_update_run)
  from update_removes_only_after_start [OF this] c
  have d: "\<forall>ev \<in> set (issued (connected ()) ?s2). \<not> is_remove (fst ev)"
    by blast
  from a b c d show ?thesis by blast
qed

text \<open>
  Claim C8. A failure of the inspect or of the pull aborts the workflow with nothing else
  done. If the inspect request or the pull request of a run of \<^verbatim>\<open>UpdateContainerByID\<close>
  returned an error, the run returns an error; its events are the failed inspect alone, or
  the successful inspect and the failed pull; it issues no create, no start and no remove
  request; and it writes nothing of a pulled image to standard output and leaves the
  package variable as it was.
\<close>

theorem inspect_or_pull_failure_aborts:
  assumes "UpdateContainerByID api containerID s = (r, s')"
    and "(rq, Some err) \<in> set (issued s s')"
    and "is_inspect rq \<or> is_pull rq"
  shows "(\<exists>msg. r = Some (Err msg)) \<and>
         (issued s s' = [(ReqContainerInspect containerID, Some err)] \<or>
          (\<exists>image. issued s s' =
             [(ReqContainerInspect containerID, None),
              (ReqImagePull image ImagePullOptions_zero, Some err)])) \<and>
         \<not> (\<exists>ev \<in> set (issued s s').
               is_create (fst ev) \<or> is_start (fst ev) \<or> is_remove (fst ev)) \<and>
         stdout s' = stdout s \<and> cli s' = cli s"
  using assms(1)
proof (cases rule: UpdateContainerByID_cases)
  case nil_client
  with assms(2,3) show ?thesis by simp
next
  case (inspect_failed err d1)
  with assms(2,3) show ?thesis by auto
next
  case (inspect_nil info d1)
  with assms(2,3) show ?thesis by auto
next
  case (pull_failed info d1 ns cfg err d2)
  with assms(2,3) show ?thesis by auto
next
  case (base_nil info d1 ns cfg out d2)
  with assms(2,3) show ?thesis by auto
next
  case (create_failed info d1 ns cfg out d2 base err d3)
  with assms(2,3) show ?thesis by auto
next
  case (start_failed info d1 ns cfg out d2 base resp d3 err d4)
  with assms(2,3) show ?thesis by auto
next
  case (remove_failed info d1 ns cfg out d2 base resp d3 d4 err d5)
  with assms(2,3) show ?thesis by auto
next
  case (completed info d1 ns cfg out d2 base resp d3 d4 d5)
  with assms(2,3) show ?thesis by auto
qed

theorem inspect_or_pull_failure_aborts_witness:
  "(ReqContainerInspect ''abc123'', Some ''refused'')
     \<in> set (issued (connected ())
          (snd (UpdateContainerByID (accepting\<lparr>ContainerInspect := \<lambda>containerID. refuse\<rparr>)
                  ''abc123'' (connected ())))) \<and>
   issued (connected ())
     (snd (UpdateContainerByID (accepting\<lparr>ContainerInspect := \<lambda>containerID. refuse\<rparr>)
             ''abc123'' (connected ())))
     = [(ReqContainerInspect ''abc123'', Some ''refused'')] \<and>
   (ReqImagePull ''app:latest'' ImagePullOptions_zero, Some ''refused'')
     \<in> set (issued (connected ())
          (snd (UpdateContainerByID (accepting\<lparr>ImagePull := \<lambda>ref opts. refuse\<rparr>)
                  ''abc123'' (connected ())))) \<and>
   stdout (snd (UpdateContainerByID (accepting\<lparr>ImagePull := \<lambda>ref opts. refuse\<rparr>)
                  ''abc123'' (connected ()))) = []"
proof -
  let ?u1 = "UpdateContainerByID (accepting\<lparr>ContainerInspect := \<lambda>containerID. refuse\<rparr>)
               ''abc123'' (connected ())"
  let ?u2 = "UpdateContainerByID (accepting\<lparr>ImagePull := \<lambda>ref opts. refuse\<rparr>)
               ''abc123'' (connected ())"
  have m1: "(ReqContainerInspect ''abc123'', Some ''refused'')
              \<in> set (issued (connected ()) (snd ?u1))"
    by (simp add: refused_inspect_update_run issued_def)
  have m2: "(ReqImagePull ''app:latest'' ImagePullOptions_zero, Some ''refused'')
              \<in> set (issued (connected ()) (snd ?u2))"
    by (simp add: refused_pull_update_run issued_def)
  have e1: "issued (connected ()) (snd ?u1) = [(ReqContainerInspect ''abc123'', Some ''refused'')]"
    by (simp add: refused_inspect_update_run issued_def)
  have "?u2 = (fst ?u2, snd ?u2)" by simp
  from inspect_or_pull_failure_aborts [OF this m2]
  have "stdout (snd ?u2) = stdout (connected ())" by simp
  then have e2: "stdout (snd ?u2) = []" by simp
  from m1 e1 m2 e2 show ?thesis by blast
qed

text \<open>
  Claim C9. After a successful inspect, the pull asks for exactly the image reference in
  the inspected configuration, and the create passes the inspected configuration, the
  inspected host configuration, a networking configuration whose endpoints are the
  inspected networks, no platform, and the inspected name. Every pull and every create
  request of the run has these arguments; the pull is issued whenever the inspect result
  carries its configuration and network settings, and the create whenever the pull
  succeeds as well (and the result carries its base part).

  The run is what these calls make of the daemon, for every client and daemon. With the
  configuration and the network settings in the inspect result, \<^verbatim>\<open>ImagePull\<close> is called
  with that reference in the state the inspect left. If it fails, the run returns the
  failure, with the daemon in the state the pull left and nothing written. If it succeeds,
  its output is what the run appends to standard output, and \<^verbatim>\<open>ContainerCreate\<close> is
  called with those five arguments in the state the pull left: its failure is returned with
  the daemon in the state the create left, and after its success the daemon ends in the
  state in which the start of the container just created, and after a successful start the
  removal of the original one, leave it.
\<close>

theorem update_pulls_and_creates_from_inspect:
  assumes "UpdateContainerByID api containerID s = (r, s')"
    and "cli s \<noteq> None"
    and "ContainerInspect api containerID (daemon s) = (Inr info, d1)"
  shows
   "(\<forall>image opts res. (ReqImagePull image opts, res) \<in> set (issued s s') \<longrightarrow>
        (\<exists>cfg. ContainerJSON.Config info = Some cfg \<and> image = Config.Image cfg))
    \<and> (\<forall>cfg hc nc pf name res.
          (ReqContainerCreate cfg hc nc pf name, res) \<in> set (issued s s') \<longrightarrow>
          (\<exists>base ns. ContainerJSONBase info = Some base \<and>
             ContainerJSON.NetworkSettings info = Some ns \<and>
             cfg = ContainerJSON.Config info \<and> cfg \<noteq> None \<and>
             hc = ContainerJSONBase.HostConfig base \<and>
             nc = Some \<lparr>EndpointsConfig = NetworkSettings.Networks ns\<rparr> \<and>
             pf = None \<and> name = ContainerJSONBase.Name base))
    \<and> (\<forall>cfg ns. ContainerJSON.Config info = Some cfg \<and>
                 ContainerJSON.NetworkSettings info = Some ns \<longrightarrow>
          (\<exists>res rest. issued s s' =
             (ReqContainerInspect containerID, None)
             # (ReqImagePull (Config.Image cfg) ImagePullOptions_zero, res) # rest))
    \<and> (\<forall>cfg ns base out d2.
          ContainerJSON.Config info = Some cfg \<and>
          ContainerJSON.NetworkSettings info = Some ns \<and>
          ContainerJSONBase info = Some base \<and>
          ImagePull api (Config.Image cfg) ImagePullOptions_zero d1 = (Inr out, d2) \<longrightarrow>
          (\<exists>res rest. issued s s' =
             (ReqContainerInspect containerID, None)
             # (ReqImagePull (Config.Image cfg) ImagePullOptions_zero, None)
             # (ReqContainerCreate (Some cfg) (ContainerJSONBase.HostConfig base)
                  (Some \<lparr>EndpointsConfig = NetworkSettings.Networks ns\<rparr>) None
                  (ContainerJSONBase.Name base), res) # rest))
    \<and> (\<forall>cfg ns.
          ContainerJSON.Config info = Some cfg \<and>
          ContainerJSON.NetworkSettings info = Some ns \<longrightarrow>
          (\<forall>err d2.
             ImagePull api (Config.Image cfg) ImagePullOptions_zero d1 = (Inl err, d2) \<longrightarrow>
             r = Some (Err (''failed to pull image '' @ Config.Image cfg @ '': '' @ err)) \<and>
             daemon s' = d2 \<and> stdout s' = stdout s) \<and>
          (\<forall>out d2.
             ImagePull api (Config.Image cfg) ImagePullOptions_zero d1 = (Inr out, d2) \<longrightarrow>
             stdout s' = stdout s @ out \<and>
             (ContainerJSONBase info = None \<longrightarrow>
                r = Some (Panic NilPointerDereference) \<and> daemon s' = d2) \<and>
             (\<forall>base err d3.
                ContainerJSONBase info = Some base \<and>
                ContainerCreate api (Some cfg) (ContainerJSONBase.HostConfig base)
                    (Some \<lparr>EndpointsConfig = NetworkSettings.Networks ns\<rparr>) None
                    (ContainerJSONBase.Name base) d2 = (Inl err, d3) \<longrightarrow>
                r = Some (Err (''failed to create container from image '' @ Config.Image cfg
                               @ '': '' @ err)) \<and>
                daemon s' = d3) \<and>
             (\<forall>base resp d3.
                ContainerJSONBase info = Some base \<and>
                ContainerCreate api (Some cfg) (ContainerJSONBase.HostConfig base)
                    (Some \<lparr>EndpointsConfig = NetworkSettings.Networks ns\<rparr>) None
                    (ContainerJSONBase.Name base) d2 = (Inr resp, d3) \<longrightarrow>
                daemon s' =
                  (case ContainerStart api (CreateResponse.ID resp)
                          ContainerStartOptions_zero d3 of
                     (Inl err, d4) \<Rightarrow> d4
                   | (Inr started, d4) \<Rightarrow>
                       snd (ContainerRemove api containerID force_remove d4)) \<and>
                (\<exists>res rest. issued s s' =
                   (ReqContainerInspect containerID, None)
                   # (ReqImagePull (Config.Image cfg) ImagePullOptions_zero, None)
                   # (ReqContainerCreate (Some cfg) (ContainerJSONBase.HostConfig base)
                        (Some \<lparr>EndpointsConfig = NetworkSettings.Networks ns\<rparr>) None
                        (ContainerJSONBase.Name base), None)
                   # (ReqContainerStart (CreateResponse.ID resp) ContainerStartOptions_zero,
                      res)
                   # rest))))"
  using assms(1)
proof (cases rule: UpdateContainerByID_cases)
  case nil_client
  with assms(2,3) show ?thesis by simp
next
  case (inspect_failed err d1)
  with assms(2,3) show ?thesis by simp
next
  case (inspect_nil info d1)
  with assms(2,3) show ?thesis by auto
next
  case (pull_failed info d1 ns cfg err d2)
  with assms(2,3) show ?thesis by auto
next
  case (base_nil info d1 ns cfg out d2)
  with assms(2,3) show ?thesis by auto
next
  case (create_failed info d1 ns cfg out d2 base err d3)
  with assms(2,3) show ?thesis by auto
next
  case (start_failed info d1 ns cfg out d2 base resp d3 err d4)
  with assms(2,3) show ?thesis by auto
next
  case (remove_failed info d1 ns cfg out d2 base resp d3 d4 err d5)
  with assms(2,3) show ?thesis by auto
next
  case (completed info d1 ns cfg out d2 base resp d3 d4 d5)
  with assms(2,3) show ?thesis by auto
qed

theorem update_pulls_and_creates_from_inspect_witness:
  "cli (connected []) \<noteq> None \<and>
   ContainerInspect recording ''abc123'' (daemon (connected []))
     = (Inr web_info, [ReqContainerInspect ''abc123'']) \<and>
   ContainerJSON.Config web_info = Some web_config \<and>
   ContainerJSON.NetworkSettings web_info = Some \<lparr>NetworkSettings.Networks = web_networks\<rparr> \<and>
   stdout (snd (UpdateContainerByID recording ''abc123'' (connected [])))
     = ''Pulling from library/app'' \<and>
   daemon (snd (UpdateContainerByID recording ''abc123'' (connected [])))
     = [ReqContainerInspect ''abc123'',
        ReqImagePull ''app:latest'' ImagePullOptions_zero,
        ReqContainerCreate (Some web_config) (Some web_host)
          (Some \<lparr>EndpointsConfig = web_networks\<rparr>) None ''/web'',
        ReqContainerStart ''def456'' ContainerStartOptions_zero,
        ReqContainerRemove ''abc123'' force_remove]"
proof -
  let ?u = "UpdateContainerByID recording ''abc123'' (connected [])"
  let ?base = "\<lparr>ContainerJSONBase.ID = ''abc123'', ContainerJSONBase.Name = ''/web'',
                 ContainerJSONBase.HostConfig = Some web_host\<rparr>"
  let ?d2 = "[ReqContainerInspect ''abc123'', ReqImagePull ''app:latest'' ImagePullOptions_zero]"
  let ?d3 = "?d2 @ [ReqContainerCreate (Some web_config) (Some web_host)
                      (Some \<lparr>EndpointsConfig = web_networks\<rparr>) None ''/web'']"
  have a: "cli (connected []) \<noteq> None" by simp
  have b: "ContainerInspect recording ''abc123'' (daemon (connected []))
             = (Inr web_info, [ReqContainerInspect ''abc123''])"
    by (simp add: recording_def)
  have c: "?u = (fst ?u, snd ?u)" by simp
  have cfg: "ContainerJSON.Config web_info = Some web_config"
    by (simp add: web_info_def)
  have ns: "ContainerJSON.NetworkSettings web_info
              = Some \<lparr>NetworkSettings.Networks = web_networks\<rparr>"
    by (simp add: web_info_def)
  have base: "ContainerJSONBase web_info = Some ?base"
    by (simp add: web_info_def)
  have pull: "ImagePull recording (Config.Image web_config) ImagePullOptions_zero
                [ReqContainerInspect ''abc123''] = (Inr ''Pulling from library/app'', ?d2)"
    by (simp add: recording_def web_config_def)
  have create: "ContainerCreate recording (Some web_config) (ContainerJSONBase.HostConfig ?base)
                  (Some \<lparr>EndpointsConfig
                           = NetworkSettings.Networks \<lparr>NetworkSettings.Networks = web_networks\<rparr>\<rparr>)
                  None (ContainerJSONBase.Name ?base) ?d2
                = (Inr \<lparr>CreateResponse.ID = ''def456'', Warnings = []\<rparr>, ?d3)"
    by (simp add: recording_def)
  note run = update_pulls_and_creates_from_inspect [OF c a b]
  note inspected = run [THEN conjunct2, THEN conjunct2, THEN conjunct2, THEN conjunct2,
      rule_format, OF conjI, OF cfg ns]
  note pulled = inspected [THEN conjunct2, rule_format, OF pull]
  from pulled [THEN conjunct1]
  have out: "stdout (snd ?u) = ''Pulling from library/app''"
    by simp
  note created = pulled [THEN conjunct2, THEN conjunct2, THEN conjunct2, rule_format,
      OF conjI, OF base create]
  from created [THEN conjunct1]
  have d: "daemon (snd ?u) = ?d3 @ [ReqContainerStart ''def456'' ContainerStartOptions_zero,
                  ReqContainerRemove ''abc123'' force_remove]"
    by (simp add: recording_def)
  from a b cfg ns out d show ?thesis by simp
qed

section \<open>Stopping a container\<close>

text \<open>
  Every stop request of \<^verbatim>\<open>StopContainerByID\<close> carries the same options: no signal, and
  the timeout \<^verbatim>\<open>int(time.Second * 10)\<close>, which is the number 10000000000.
\<close>

lemma StopContainerByID_request:
  assumes "cli s \<noteq> None"
  shows "\<exists>res. issued s (snd (StopContainerByID api containerID s)) =
           [(ReqContainerStop containerID
               \<lparr>Signal = [], StopOptions.Timeout = Some 10000000000\<rparr>, res)]"
  using assms
  by (auto simp: StopContainerByID_def invoke_def issued_def time_Second_def Let_def
      split: option.splits prod.splits sum.splits)

text \<open>
  Claim C4. The claim is that the stop request carries a grace period of 10 seconds. The
  field \<^verbatim>\<open>Timeout\<close> of \<^verbatim>\<open>container.StopOptions\<close> counts seconds, and the handler
  \<^verbatim>\<open>StopContainer\<close>, called for the container \<^verbatim>\<open>abc123\<close>, puts 10000000000 into it
  (the nanoseconds of ten seconds), not 10.
\<close>

theorem stop_grace_period_is_ten_billion:
  "\<exists>stopOpts.
     issued (connected ()) (snd (StopContainer accepting ''abc123'' (connected ()))) =
       [(ReqContainerStop ''abc123'' stopOpts, None)] \<and>
     StopOptions.Timeout stopOpts = Some 10000000000 \<and>
     StopOptions.Timeout stopOpts \<noteq> Some 10"
  by (simp add: StopContainer_def StopContainerByID_def invoke_def issued_def time_Second_def
        accepting_def Let_def)

section \<open>Listing the containers\<close>

text \<open>
  Whatever the daemon, \<^verbatim>\<open>ListContainers\<close> asks once, with the zero-valued options, and
  hands on the answer.
\<close>

lemma ListContainers_request:
  assumes "cli s \<noteq> None"
    and "ContainerList api ContainerListOptions_zero (daemon s) = (Inr containers, d')"
  shows "ListContainers api s =
           (Inr containers,
            s\<lparr>daemon := d',
               requests := requests s @ [(ReqContainerList ContainerListOptions_zero, None)]\<rparr>)"
  using assms by (auto simp: ListContainers_def invoke_def)

text \<open>
  Claim C3, as stated, fails: a daemon that knows a running and an exited container
  answers the request of \<^verbatim>\<open>ListContainers\<close> with the running one only.
\<close>

theorem list_omits_exited_container:
  "fst (ListContainers dockerd
          (connected [a_container ''c1'' ''/web'' ''running'',
                      a_container ''c2'' ''/db'' ''exited''])) =
     Inr [a_container ''c1'' ''/web'' ''running'']"
  by (simp add: ListContainers_def invoke_def dockerd_def accepting_def
        ContainerListOptions_zero_def shown_by_default_def a_container_def)

text \<open>
  Claim C3, amended. \<^verbatim>\<open>ListContainers\<close> issues one list request with the zero-valued
  options, in which \<^verbatim>\<open>All\<close> is false, and returns the daemon's answer to it: of the
  containers the daemon knows, those it shows by default (running, paused or restarting),
  and not the stopped ones.
\<close>

theorem list_returns_default_listing:
  "fst (ListContainers dockerd (connected known)) = Inr (filter shown_by_default known) \<and>
   issued (connected known) (snd (ListContainers dockerd (connected known))) =
     [(ReqContainerList ContainerListOptions_zero, None)] \<and>
   \<not> ContainerListOptions.All ContainerListOptions_zero"
  by (simp add: ListContainers_def invoke_def dockerd_def accepting_def
        ContainerListOptions_zero_def issued_def)

theorem list_returns_default_listing_witness:
  "fst (ListContainers dockerd
          (connected [a_container ''c2'' ''/db'' ''exited'',
                      a_container ''c3'' ''/cache'' ''paused''])) =
     Inr [a_container ''c3'' ''/cache'' ''paused'']"
  using list_returns_default_listing
    [of "[a_container ''c2'' ''/db'' ''exited'', a_container ''c3'' ''/cache'' ''paused'']"]
  by (simp add: shown_by_default_def a_container_def)

section \<open>Connecting\<close>

text \<open>
  Claim C5, as stated, fails: when every step before the ping succeeds and the ping is
  refused, \<^verbatim>\<open>ConnectToDocker\<close> returns the error, but the package variable holds the new
  client, and a later \<^verbatim>\<open>ListContainers\<close> sends its request through it.
\<close>

theorem failed_ping_leaves_client_installed:
  "fst (ConnectToDocker an_environment (accepting\<lparr>Ping := refuse\<rparr>) (fresh ())) =
     Some (Err ''failed to ping Docker daemon: refused'') \<and>
   cli (snd (ConnectToDocker an_environment (accepting\<lparr>Ping := refuse\<rparr>) (fresh ()))) =
     Some a_client \<and>
   fst (ListContainers accepting
          (snd (ConnectToDocker an_environment (accepting\<lparr>Ping := refuse\<rparr>) (fresh ())))) =
     Inr []"
  by (simp add: ConnectToDocker_def an_environment_def accepting_def refuse_def fresh_def
        invoke_def a_client_def ListContainers_def Let_def)

text \<open>
  Claim C5, amended. If the ping of a connect attempt fails, \<^verbatim>\<open>ConnectToDocker\<close> returns
  the error ``failed to ping Docker daemon'' with the cause, and the package variable
  holds the client that this attempt constructed.
\<close>

theorem failed_ping_fails_connect_keeps_client:
  assumes "ConnectToDocker env api s = (r, s')"
    and "(ReqPing, Some err) \<in> set (issued s s')"
  shows "r = Some (Err (''failed to ping Docker daemon: '' @ err)) \<and>
         (\<exists>given c. NewClientWithOpts env given = Inr c \<and> cli s' = Some c)"
  using assms
  by (auto simp: ConnectToDocker_def invoke_def issued_def Let_def
      split: sum.splits prod.splits option.splits)

theorem failed_ping_fails_connect_keeps_client_witness:
  "(ReqPing, Some ''refused'')
     \<in> set (issued (fresh ())
          (snd (ConnectToDocker an_environment (accepting\<lparr>Ping := refuse\<rparr>) (fresh ())))) \<and>
   fst (ConnectToDocker an_environment (accepting\<lparr>Ping := refuse\<rparr>) (fresh ())) =
     Some (Err ''failed to ping Docker daemon: refused'') \<and>
   (\<exists>given c. NewClientWithOpts an_environment given = Inr c \<and>
      cli (snd (ConnectToDocker an_environment (accepting\<lparr>Ping := refuse\<rparr>) (fresh ())))
        = Some c)"
proof -
  let ?c = "ConnectToDocker an_environment (accepting\<lparr>Ping := refuse\<rparr>) (fresh ())"
  have m: "(ReqPing, Some ''refused'') \<in> set (issued (fresh ()) (snd ?c))"
    by (simp add: ConnectToDocker_def an_environment_def accepting_def refuse_def fresh_def
          invoke_def issued_def Let_def)
  have "?c = (fst ?c, snd ?c)" by simp
  from failed_ping_fails_connect_keeps_client [OF this m] m show ?thesis by simp
qed

section \<open>The list handler\<close>

text \<open>
  The conversion of one record faults at \<^verbatim>\<open>container.Names[0]\<close> when the names list is
  empty, whatever else the record holds; a record with a name is converted when none of its
  pointers is \<^verbatim>\<open>nil\<close>, and faults at the \<^verbatim>\<open>nil\<close> pointer otherwise. The loop stops at
  the first record that faults.
\<close>

lemma networks_loop_nil:
  "\<not> list_all (\<lambda>kn. snd kn \<noteq> None) ns \<Longrightarrow> networks_loop ns acc = Inl NilPointerDereference"
  by (induction ns acc rule: networks_loop.induct) (auto split: option.splits)

lemma networks_loop_no_nil:
  "list_all (\<lambda>kn. snd kn \<noteq> None) ns \<Longrightarrow> \<exists>ids. networks_loop ns acc = Inr ids"
  by (induction ns acc rule: networks_loop.induct) auto

lemma convert_empty_names:
  "Names container = [] \<Longrightarrow> convert container = Inl (IndexOutOfRange 0 0)"
  by (simp add: convert_def)

lemma convert_named_no_nil:
  assumes "Names container \<noteq> []" and "no_nil_pointer container"
  shows "\<exists>data. convert container = Inr data"
proof -
  from assms(1) obtain name names where n: "Names container = name # names"
    by (cases "Names container") auto
  from assms(2) obtain ns where ns: "types_Container.NetworkSettings container = Some ns"
    and "list_all (\<lambda>kn. snd kn \<noteq> None) (SummaryNetworkSettings.Networks ns)"
    by (auto simp: no_nil_pointer_def split: option.splits)
  from networks_loop_no_nil [OF this(2)] obtain ids
    where "networks_loop (SummaryNetworkSettings.Networks ns) [] = Inr ids" by blast
  with n ns show ?thesis by (simp add: convert_def)
qed

lemma convert_named_nil:
  assumes "Names container \<noteq> []" and "\<not> no_nil_pointer container"
  shows "convert container = Inl NilPointerDereference"
proof -
  from assms(1) obtain name names where n: "Names container = name # names"
    by (cases "Names container") auto
  show ?thesis
  proof (cases "types_Container.NetworkSettings container")
    case None
    with n show ?thesis by (simp add: convert_def)
  next
    case (Some ns)
    with assms(2) have "\<not> list_all (\<lambda>kn. snd kn \<noteq> None) (SummaryNetworkSettings.Networks ns)"
      by (simp add: no_nil_pointer_def)
    from networks_loop_nil [OF this] n Some show ?thesis by (simp add: convert_def)
  qed
qed

lemma containers_loop_empty_names:
  "\<exists>c \<in> set containers. Names c = [] \<Longrightarrow>
   containers_loop containers acc =
     Inl (if list_all no_nil_pointer (takeWhile (\<lambda>c. Names c \<noteq> []) containers)
          then IndexOutOfRange 0 0 else NilPointerDereference)"
proof (induction containers arbitrary: acc)
  case Nil
  then show ?case by simp
next
  case (Cons c cs)
  show ?case
  proof (cases "Names c = []")
    case True
    then show ?thesis by (simp add: convert_empty_names)
  next
    case named: False
    with Cons.prems have rest: "\<exists>c \<in> set cs. Names c = []" by auto
    show ?thesis
    proof (cases "no_nil_pointer c")
      case True
      from convert_named_no_nil [OF named True] obtain data where "convert c = Inr data" ..
      with Cons.IH [OF rest] named True show ?thesis by simp
    next
      case False
      from convert_named_nil [OF named False] named False show ?thesis by simp
    qed
  qed
qed

text \<open>
  Claim C10, as stated, fails: when the daemon's answer holds a record without network
  settings and, after it, a record whose names list is empty, \<^verbatim>\<open>GetContainers\<close> faults
  at the first record, with a \<^verbatim>\<open>nil\<close> pointer dereference; the out-of-bounds access is
  not reached.
\<close>

theorem nil_pointer_fault_before_empty_names:
  "fst (ListContainers dockerd
          (connected [(a_container ''c1'' ''/web'' ''running'')
                        \<lparr>types_Container.NetworkSettings := None\<rparr>,
                      (a_container ''c2'' ''/db'' ''running'')\<lparr>Names := []\<rparr>])) =
     Inr [(a_container ''c1'' ''/web'' ''running'')\<lparr>types_Container.NetworkSettings := None\<rparr>,
          (a_container ''c2'' ''/db'' ''running'')\<lparr>Names := []\<rparr>] \<and>
   Names ((a_container ''c2'' ''/db'' ''running'')\<lparr>Names := []\<rparr>) = [] \<and>
   fst (GetContainers dockerd
          (connected [(a_container ''c1'' ''/web'' ''running'')
                        \<lparr>types_Container.NetworkSettings := None\<rparr>,
                      (a_container ''c2'' ''/db'' ''running'')\<lparr>Names := []\<rparr>])) =
     Inl NilPointerDereference"
  by (simp add: GetContainers_def ListContainers_def invoke_def dockerd_def accepting_def
        ContainerListOptions_zero_def shown_by_default_def a_container_def convert_def)

text \<open>
  Claim C10, amended. If the answer to the list request contains a record whose names list
  is empty, \<^verbatim>\<open>GetContainers\<close> panics: it responds neither with the summaries nor with an
  error. The panic is the index out of range of \<^verbatim>\<open>container.Names[0]\<close> (index 0, length
  0) when no record before the first nameless one has a \<^verbatim>\<open>nil\<close> pointer, whatever the
  nameless record and the records after it hold; otherwise it is the \<^verbatim>\<open>nil\<close> pointer
  dereference at the first such record.
\<close>

theorem empty_names_list_faults:
  assumes "ListContainers api s = (Inr containers, s')"
    and "\<exists>c \<in> set containers. Names c = []"
  shows "GetContainers api s =
           (Inl (if list_all no_nil_pointer (takeWhile (\<lambda>c. Names c \<noteq> []) containers)
                 then IndexOutOfRange 0 0 else NilPointerDereference), s')"
  using containers_loop_empty_names [OF assms(2), of "[]"] assms(1)
  by (simp add: GetContainers_def)

lemma nameless_list_run:
  "ListContainers dockerd
     (connected [a_container ''c1'' ''/web'' ''running'',
                 (a_container ''c2'' ''/db'' ''running'')
                   \<lparr>Names := [], types_Container.NetworkSettings := None\<rparr>,
                 (a_container ''c3'' ''/cache'' ''running'')
                   \<lparr>types_Container.NetworkSettings := None\<rparr>]) =
   (Inr [a_container ''c1'' ''/web'' ''running'',
         (a_container ''c2'' ''/db'' ''running'')
           \<lparr>Names := [], types_Container.NetworkSettings := None\<rparr>,
         (a_container ''c3'' ''/cache'' ''running'')
           \<lparr>types_Container.NetworkSettings := None\<rparr>],
    \<lparr>cli = Some a_client,
      daemon = [a_container ''c1'' ''/web'' ''running'',
                (a_container ''c2'' ''/db'' ''running'')
                  \<lparr>Names := [], types_Container.NetworkSettings := None\<rparr>,
                (a_container ''c3'' ''/cache'' ''running'')
                  \<lparr>types_Container.NetworkSettings := None\<rparr>],
      requests = [(ReqContainerList ContainerListOptions_zero, None)], stdout = []\<rparr>)"
  by (simp add: ListContainers_def invoke_def dockerd_def accepting_def connected_def
        ContainerListOptions_zero_def shown_by_default_def a_container_def)

theorem empty_names_list_faults_witness:
  "Names ((a_container ''c2'' ''/db'' ''running'')
            \<lparr>Names := [], types_Container.NetworkSettings := None\<rparr>) = [] \<and>
   fst (GetContainers dockerd
          (connected [a_container ''c1'' ''/web'' ''running'',
                      (a_container ''c2'' ''/db'' ''running'')
                        \<lparr>Names := [], types_Container.NetworkSettings := None\<rparr>,
                      (a_container ''c3'' ''/cache'' ''running'')
                        \<lparr>types_Container.NetworkSettings := None\<rparr>])) =
     Inl (IndexOutOfRange 0 0)"
proof -
  let ?known = "[a_container ''c1'' ''/web'' ''running'',
                 (a_container ''c2'' ''/db'' ''running'')
                   \<lparr>Names := [], types_Container.NetworkSettings := None\<rparr>,
                 (a_container ''c3'' ''/cache'' ''running'')
                   \<lparr>types_Container.NetworkSettings := None\<rparr>]"
  have a: "\<exists>c \<in> set ?known. Names c = []" by simp
  have b: "list_all no_nil_pointer (takeWhile (\<lambda>c. Names c \<noteq> []) ?known)"
    by (simp add: no_nil_pointer_def a_container_def web_networks_def)
  from empty_names_list_faults [OF nameless_list_run a] b show ?thesis by simp
qed

section \<open>Rounding to float64\<close>

text \<open>
  Powers of two, the binade of a positive rational, rounding to the nearest integer with
  ties to even, and from these the facts about \<open>nearest\<close> that the claims about the
  statistics need: it is monotone, it keeps a representable value, and it stays within the
  binade of its argument.
\<close>

lemma pow2_powi: "pow2 e = 2 powi e"
  by (simp add: pow2_def power_int_def power_inverse inverse_eq_divide flip: power_one_over)

lemma pow2_pos [simp]: "0 < pow2 e"
  by (simp add: pow2_powi)

lemma pow2_add: "pow2 (a + b) = pow2 a * pow2 b"
  by (simp add: pow2_powi power_int_add)

lemma pow2_diff: "pow2 (a - b) = pow2 a / pow2 b"
  by (simp add: pow2_powi power_int_diff)

lemma pow2_strict_mono: "a < b \<Longrightarrow> pow2 a < pow2 b"
  by (simp add: pow2_powi power_int_strict_increasing)

lemma pow2_mono: "a \<le> b \<Longrightarrow> pow2 a \<le> pow2 b"
  by (simp add: pow2_powi power_int_increasing)

lemma pow2_less_iff [simp]: "pow2 a < pow2 b \<longleftrightarrow> a < b"
proof
  assume less: "pow2 a < pow2 b"
  show "a < b"
  proof (rule ccontr)
    assume "\<not> a < b"
    then have "b \<le> a" by simp
    from pow2_mono [OF this] less show False by simp
  qed
qed (rule pow2_strict_mono)

lemma pow2_le_iff [simp]: "pow2 a \<le> pow2 b \<longleftrightarrow> a \<le> b"
  using pow2_less_iff [of b a] by (simp only: not_less [symmetric])

lemma pow2_nat: "0 \<le> e \<Longrightarrow> pow2 e = 2 ^ nat e"
  by (simp add: pow2_def)

lemma binade_bounds:
  assumes "0 < x"
  shows "pow2 (binade x) \<le> x \<and> x < pow2 (binade x + 1)"
proof -
  obtain p q where pq: "quotient_of x = (p, q)" by (cases "quotient_of x")
  then have q: "0 < q" by (rule quotient_of_denom_pos)
  from pq have x: "x = of_int p / of_int q" by (rule quotient_of_div)
  with assms q have p: "0 < p" by (simp add: zero_less_divide_iff)
  define d where "d = bitlen p - bitlen q"
  have bp: "1 \<le> bitlen p" and bq: "1 \<le> bitlen q"
    using p q by (simp_all add: bitlen_alt_def)
  have "(of_int (2 ^ nat (bitlen p - 1)) :: rat) \<le> of_int p"
    using bitlen_bounds [OF p] by (simp only: of_int_le_iff)
  then have p1: "pow2 (bitlen p - 1) \<le> of_int p"
    using bp by (simp add: pow2_nat)
  have "(of_int p :: rat) < of_int (2 ^ nat (bitlen p))"
    using bitlen_bounds [OF p] by (simp only: of_int_less_iff)
  then have p2: "of_int p < pow2 (bitlen p)"
    using bp by (simp add: pow2_nat)
  have "(of_int (2 ^ nat (bitlen q - 1)) :: rat) \<le> of_int q"
    using bitlen_bounds [OF q] by (simp only: of_int_le_iff)
  then have q1: "pow2 (bitlen q - 1) \<le> of_int q"
    using bq by (simp add: pow2_nat)
  have "(of_int q :: rat) < of_int (2 ^ nat (bitlen q))"
    using bitlen_bounds [OF q] by (simp only: of_int_less_iff)
  then have q2: "of_int q < pow2 (bitlen q)"
    using bq by (simp add: pow2_nat)
  have qpos: "(0::rat) < of_int q" using q by simp
  have lo: "pow2 (d - 1) \<le> x"
  proof -
    have "pow2 (d - 1) * of_int q \<le> pow2 (d - 1) * pow2 (bitlen q)"
      using q2 by (simp add: less_imp_le)
    also have "\<dots> = pow2 (bitlen p - 1)"
      by (simp add: d_def flip: pow2_add)
    also have "\<dots> \<le> of_int p" by (rule p1)
    finally show ?thesis using qpos by (simp add: x pos_le_divide_eq)
  qed
  have hi: "x < pow2 (d + 1)"
  proof -
    have "of_int p < pow2 (bitlen p)" by (rule p2)
    also have "\<dots> = pow2 (d + 1) * pow2 (bitlen q - 1)"
      by (simp add: d_def flip: pow2_add)
    also have "\<dots> \<le> pow2 (d + 1) * of_int q"
      using q1 by simp
    finally show ?thesis using qpos by (simp add: x pos_divide_less_eq)
  qed
  show ?thesis
    using lo hi by (simp add: binade_def pq d_def [symmetric] Let_def not_less)
qed

lemma binade_mono:
  assumes "0 < x" "x \<le> y"
  shows "binade x \<le> binade y"
proof -
  have "0 < y" using assms by linarith
  from binade_bounds [OF assms(1)] binade_bounds [OF this] assms(2)
  have "pow2 (binade x) < pow2 (binade y + 1)" by linarith
  then show ?thesis by simp
qed

lemma round_half_even_of_int [simp]: "round_half_even (of_int n) = n"
  by (simp add: round_half_even_def)

lemma round_half_even_cases:
  "round_half_even q = \<lfloor>q\<rfloor> \<or> round_half_even q = \<lfloor>q\<rfloor> + 1"
  by (simp add: round_half_even_def Let_def)

lemma round_half_even_bounds:
  "of_int (round_half_even q) \<le> q + 1 / 2" "q - 1 / 2 \<le> of_int (round_half_even q)"
proof -
  have f: "of_int \<lfloor>q\<rfloor> \<le> q" "q < of_int \<lfloor>q\<rfloor> + 1" by linarith+
  consider "q - of_int \<lfloor>q\<rfloor> < 1 / 2" | "1 / 2 < q - of_int \<lfloor>q\<rfloor>" | "q - of_int \<lfloor>q\<rfloor> = 1 / 2"
    by linarith
  then have "of_int (round_half_even q) \<le> q + 1 / 2 \<and> q - 1 / 2 \<le> of_int (round_half_even q)"
  proof cases
    case 1
    then have e: "round_half_even q = \<lfloor>q\<rfloor>" by (simp add: round_half_even_def Let_def)
    show ?thesis unfolding e using f 1 by linarith
  next
    case 2
    then have e: "round_half_even q = \<lfloor>q\<rfloor> + 1" by (simp add: round_half_even_def Let_def)
    show ?thesis unfolding e of_int_add of_int_1 using f 2 by linarith
  next
    case 3
    from round_half_even_cases [of q] show ?thesis
    proof
      assume e: "round_half_even q = \<lfloor>q\<rfloor>"
      show ?thesis unfolding e using f 3 by linarith
    next
      assume e: "round_half_even q = \<lfloor>q\<rfloor> + 1"
      show ?thesis unfolding e of_int_add of_int_1 using f 3 by linarith
    qed
  qed
  then show "of_int (round_half_even q) \<le> q + 1 / 2" "q - 1 / 2 \<le> of_int (round_half_even q)"
    by simp_all
qed

lemma round_half_even_mono:
  assumes "q \<le> q'"
  shows "round_half_even q \<le> round_half_even q'"
proof (cases "\<lfloor>q\<rfloor> = \<lfloor>q'\<rfloor>")
  case True
  define f where "f = \<lfloor>q\<rfloor>"
  have r: "q - of_int f \<le> q' - of_int f" using assms by simp
  have q: "round_half_even q = (if q - of_int f < 1 / 2 then f else if 1 / 2 < q - of_int f then f + 1
             else if even f then f else f + 1)"
    by (simp add: round_half_even_def Let_def f_def)
  have q': "round_half_even q' = (if q' - of_int f < 1 / 2 then f else if 1 / 2 < q' - of_int f then f + 1
             else if even f then f else f + 1)"
    by (simp add: round_half_even_def Let_def f_def True)
  show ?thesis unfolding q q' using r by (simp split: if_splits) 
next
  case False
  with assms have "\<lfloor>q\<rfloor> < \<lfloor>q'\<rfloor>" using floor_mono [OF assms] by linarith
  moreover have "round_half_even q \<le> \<lfloor>q\<rfloor> + 1" using round_half_even_cases [of q] by linarith
  moreover have "\<lfloor>q'\<rfloor> \<le> round_half_even q'" using round_half_even_cases [of q'] by linarith
  ultimately show ?thesis by linarith
qed

lemma round_half_even_le: "q \<le> of_int n \<Longrightarrow> round_half_even q \<le> n"
  using round_half_even_mono [of q "of_int n"] by simp

lemma round_half_even_ge: "of_int n \<le> q \<Longrightarrow> n \<le> round_half_even q"
  using round_half_even_mono [of "of_int n" q] by simp

lemma pow2_nonneg [simp]: "0 \<le> pow2 e"
  using pow2_pos [of e] by (rule less_imp_le)

lemma ulp_pos [simp]: "0 < ulp x"
  by (simp add: ulp_def)

lemma ulp_nonneg [simp]: "0 \<le> ulp x"
  using ulp_pos [of x] by (rule less_imp_le)

lemma ulp_neq_0 [simp]: "ulp x \<noteq> 0"
proof
  assume "ulp x = 0"
  with ulp_pos [of x] show False by simp
qed

lemma nearest_0 [simp]: "nearest 0 = 0"
  by (simp add: nearest_def)

lemma nearest_nonneg: "0 \<le> x \<Longrightarrow> 0 \<le> nearest x"
proof -
  assume "0 \<le> x"
  then have "(of_int 0 :: rat) \<le> x / ulp x" by simp
  from round_half_even_ge [OF this] show ?thesis
    by (simp add: nearest_def)
qed

lemma nearest_error:
  "nearest x \<le> x + ulp x / 2" "x - ulp x / 2 \<le> nearest x"
proof -
  have u: "0 < ulp x" by simp
  from round_half_even_bounds [of "x / ulp x"]
  have "of_int (round_half_even (x / ulp x)) * ulp x \<le> (x / ulp x + 1 / 2) * ulp x"
    "(x / ulp x - 1 / 2) * ulp x \<le> of_int (round_half_even (x / ulp x)) * ulp x"
    using u by (simp_all only: mult_le_cancel_right_pos)
  then have "of_int (round_half_even (x / ulp x)) * ulp x \<le> x + ulp x / 2"
    "x - ulp x / 2 \<le> of_int (round_half_even (x / ulp x)) * ulp x"
    using u by (simp_all add: algebra_simps)
  then show "nearest x \<le> x + ulp x / 2" "x - ulp x / 2 \<le> nearest x"
    using u by (simp_all add: nearest_def)
qed

lemma nearest_le_binade_top:
  assumes "0 < x"
  shows "nearest x \<le> pow2 (max (binade x) (- 1022) + 1)"
proof -
  let ?e = "max (binade x) (- 1022)"
  have "x < pow2 (binade x + 1)" using binade_bounds [OF assms] by simp
  also have "\<dots> \<le> pow2 (?e + 1)" by simp
  finally have "x / ulp x < pow2 (?e + 1) / ulp x"
    by (simp add: divide_strict_right_mono)
  also have "pow2 (?e + 1) / ulp x = pow2 53"
    by (simp add: ulp_def flip: pow2_diff)
  also have "pow2 53 = of_int (2 ^ 53)" by (simp add: pow2_def)
  finally have "round_half_even (x / ulp x) \<le> 2 ^ 53"
    by (intro round_half_even_le) simp
  then have "(of_int (round_half_even (x / ulp x)) :: rat) \<le> of_int (2 ^ 53)"
    by (simp only: of_int_le_iff)
  then have "of_int (round_half_even (x / ulp x)) * ulp x \<le> of_int (2 ^ 53) * ulp x"
    by (simp only: mult_le_cancel_right_pos ulp_pos)
  also have "of_int (2 ^ 53) * ulp x = pow2 53 * pow2 (?e - 52)"
    by (simp add: pow2_def ulp_def)
  also have "\<dots> = pow2 (?e + 1)" by (simp add: add.commute flip: pow2_add)
  finally show ?thesis using assms by (simp add: nearest_def)
qed

lemma nearest_ge_binade:
  assumes "pow2 (- 1022) \<le> x"
  shows "pow2 (binade x) \<le> nearest x"
proof -
  have pos: "0 < x" using assms pow2_pos [of "- 1022"] by linarith
  have b: "pow2 (binade x) \<le> x" "x < pow2 (binade x + 1)"
    using binade_bounds [OF pos] by simp_all
  from assms b(2) have "pow2 (- 1022) < pow2 (binade x + 1)" by linarith
  then have e: "max (binade x) (- 1022) = binade x" by simp
  have u: "ulp x = pow2 (binade x - 52)" by (simp add: ulp_def e)
  have n: "nearest x = of_int (round_half_even (x / ulp x)) * ulp x"
    using pos by (simp add: nearest_def)
  have p52: "pow2 52 = of_int (2 ^ 52)" by (simp add: pow2_def)
  have "pow2 52 = pow2 (binade x) / ulp x" by (simp add: u flip: pow2_diff)
  also have "\<dots> \<le> x / ulp x" using b(1) by (simp add: divide_right_mono)
  finally have "(of_int (2 ^ 52) :: rat) \<le> x / ulp x" by (simp only: p52)
  then have "2 ^ 52 \<le> round_half_even (x / ulp x)" by (rule round_half_even_ge)
  then have "(of_int (2 ^ 52) :: rat) \<le> of_int (round_half_even (x / ulp x))"
    by (simp only: of_int_le_iff)
  then have le: "of_int (2 ^ 52) * ulp x \<le> of_int (round_half_even (x / ulp x)) * ulp x"
    by (simp only: mult_le_cancel_right_pos ulp_pos)
  have "pow2 (binade x) = pow2 52 * pow2 (binade x - 52)" by (simp flip: pow2_add)
  also have "\<dots> = of_int (2 ^ 52) * ulp x" by (simp only: p52 u)
  also note le
  finally show ?thesis by (simp only: n)
qed

lemma nearest_mono:
  assumes "0 \<le> x" "x \<le> y"
  shows "nearest x \<le> nearest y"
proof (cases "x = 0")
  case True
  with assms nearest_nonneg [of y] show ?thesis by simp
next
  case False
  with assms have x: "0 < x" and y: "0 < y" by simp_all
  let ?ex = "max (binade x) (- 1022)" and ?ey = "max (binade y) (- 1022)"
  have le: "?ex \<le> ?ey" using binade_mono [OF x assms(2)] by simp
  show ?thesis
  proof (cases "?ex = ?ey")
    case True
    then have u: "ulp x = ulp y" by (simp add: ulp_def)
    have "x / ulp y \<le> y / ulp y" using assms(2) by (simp add: divide_right_mono)
    then have "round_half_even (x / ulp y) \<le> round_half_even (y / ulp y)"
      by (rule round_half_even_mono)
    then have "(of_int (round_half_even (x / ulp y)) :: rat) \<le> of_int (round_half_even (y / ulp y))"
      by (simp only: of_int_le_iff)
    then have "of_int (round_half_even (x / ulp y)) * ulp y
                 \<le> of_int (round_half_even (y / ulp y)) * ulp y"
      by (simp only: mult_le_cancel_right_pos ulp_pos)
    then show ?thesis using x y by (simp add: nearest_def u)
  next
    case False
    with le have less: "?ex < ?ey" unfolding le_less by blast
    then have ey: "?ey = binade y" by (simp add: max_def split: if_splits)
    have "pow2 (- 1022) \<le> pow2 (binade y)" using less ey by simp
    also have "\<dots> \<le> y" using binade_bounds [OF y] by simp
    finally have "pow2 (binade y) \<le> nearest y" by (rule nearest_ge_binade)
    moreover have "nearest x \<le> pow2 (?ex + 1)" by (rule nearest_le_binade_top [OF x])
    moreover have "pow2 (?ex + 1) \<le> pow2 (binade y)"
    proof -
      from less ey have "?ex + 1 \<le> binade y" by linarith
      then show ?thesis by (simp only: pow2_le_iff)
    qed
    ultimately show ?thesis by linarith
  qed
qed

lemma nearest_exact:
  assumes "0 \<le> m" "m \<le> 2 ^ 53" "- 1074 \<le> k"
  shows "nearest (of_int m * pow2 k) = of_int m * pow2 k"
proof (cases "m = 0")
  case True
  then show ?thesis by simp
next
  case False
  with assms have m: "0 < m" by simp
  let ?x = "of_int m * pow2 k :: rat"
  have x: "0 < ?x" using m by simp
  have "(of_int m :: rat) \<le> of_int (2 ^ 53)" using assms(2) by (simp only: of_int_le_iff)
  then have "?x \<le> of_int (2 ^ 53) * pow2 k" by (intro mult_right_mono) simp_all
  moreover have "(of_int (2 ^ 53) :: rat) = pow2 53" by (simp add: pow2_def)
  ultimately have top: "?x \<le> pow2 (53 + k)" by (simp only: pow2_add)
  have "pow2 (binade ?x) \<le> ?x" using binade_bounds [OF x] by simp
  with top have "pow2 (binade ?x) \<le> pow2 (53 + k)" by linarith
  then have b: "binade ?x \<le> 53 + k" by simp
  define u where "u = max (binade ?x) (- 1022) - 52"
  have uk: "u \<le> k + 1" using b assms(3) by (simp add: u_def)
  have ulp: "ulp ?x = pow2 u" by (simp add: ulp_def u_def)
  show ?thesis
  proof (cases "u \<le> k")
    case True
    have "?x / ulp ?x = of_int m * (pow2 k / pow2 u)" by (simp add: ulp)
    also have "pow2 k / pow2 u = pow2 (k - u)" by (simp add: pow2_diff)
    also have "\<dots> = of_int (2 ^ nat (k - u))" using True by (simp add: pow2_nat)
    finally have q: "?x / ulp ?x = of_int (m * 2 ^ nat (k - u))" by simp
    have "of_int (round_half_even (?x / ulp ?x)) * ulp ?x = ?x / ulp ?x * ulp ?x"
      unfolding q round_half_even_of_int ..
    then show ?thesis using x by (simp add: nearest_def)
  next
    case False
    with uk have u: "u = k + 1" by simp
    then have "binade ?x = 53 + k" using b assms(3) by (simp add: u_def split: if_splits)
    then have "pow2 (53 + k) \<le> ?x" using binade_bounds [OF x] by simp
    with top have eq: "?x = pow2 (53 + k)" by linarith
    have "?x / ulp ?x = ?x / pow2 (k + 1)" by (simp only: ulp u)
    also have "\<dots> = pow2 (53 + k) / pow2 (k + 1)" by (simp only: eq)
    also have "\<dots> = pow2 52" by (simp flip: pow2_diff)
    also have "\<dots> = of_int (2 ^ 52)" by (simp add: pow2_def)
    finally have q: "?x / ulp ?x = of_int (2 ^ 52)" .
    have "of_int (round_half_even (?x / ulp ?x)) * ulp ?x = ?x / ulp ?x * ulp ?x"
      unfolding q round_half_even_of_int ..
    then show ?thesis using x by (simp add: nearest_def)
  qed
qed

lemma nearest_of_int:
  "0 \<le> m \<Longrightarrow> m \<le> 2 ^ 53 \<Longrightarrow> nearest (of_int m) = of_int m"
  using nearest_exact [of m 0] by (simp add: pow2_def)

section \<open>The values GetStats computes\<close>

lemma f64_round_bounded:
  assumes "0 \<le> x" "x \<le> pow2 k" "- 1074 \<le> k" "k < 1024"
  shows "f64_round x = Finite (nearest x)" "0 \<le> nearest x" "nearest x \<le> pow2 k"
proof -
  have "nearest (of_int 1 * pow2 k) = of_int 1 * pow2 k"
    by (rule nearest_exact) (use assms in simp_all)
  then have e: "nearest (pow2 k) = pow2 k" by simp
  from nearest_mono [OF assms(1,2)] show le: "nearest x \<le> pow2 k" by (simp only: e)
  show "0 \<le> nearest x" by (rule nearest_nonneg [OF assms(1)])
  have "pow2 k < pow2 1024" using assms(4) by simp
  with le have "\<not> pow2 1024 \<le> nearest x" by linarith
  then show "f64_round x = Finite (nearest x)" by (simp add: f64_round_def)
qed

lemma nearest_1 [simp]: "nearest 1 = 1"
  using nearest_of_int [of 1] by simp

lemma nearest_100 [simp]: "nearest 100 = 100"
  using nearest_of_int [of 100] by simp

lemma uint_u64_bound: "(of_int (uint (n :: 64 word)) :: rat) \<le> pow2 64"
proof -
  have "uint n < 2 ^ 64" using uint_bounded [of n] by simp
  then have "uint n \<le> 2 ^ 64" by simp
  then have "(of_int (uint n) :: rat) \<le> of_int (2 ^ 64)" by (simp only: of_int_le_iff)
  then show ?thesis by (simp add: pow2_def)
qed

lemma float64_of_uint64_Finite:
  "float64_of_uint64 n = Finite (nearest (of_int (uint n)))"
  "0 \<le> nearest (of_int (uint n))"
  "nearest (of_int (uint n)) \<le> pow2 64"
proof -
  have "(0 :: rat) \<le> of_int (uint n)" by (simp only: of_int_0_le_iff uint_ge_0)
  note r = f64_round_bounded [OF this uint_u64_bound [of n]]
  show "float64_of_uint64 n = Finite (nearest (of_int (uint n)))"
    unfolding float64_of_uint64_def by (rule r) simp_all
  show "0 \<le> nearest (of_int (uint n))" by (rule r) simp_all
  show "nearest (of_int (uint n)) \<le> pow2 64" by (rule r) simp_all
qed

lemma float64_of_uint64_ge_1:
  assumes "n \<noteq> 0"
  shows "1 \<le> nearest (of_int (uint n))"
proof -
  from assms have "uint n \<noteq> 0" by (simp add: uint_0_iff)
  then have "1 \<le> uint n" using uint_ge_0 [of n] by linarith
  then have "(of_int 1 :: rat) \<le> of_int (uint n)" by (simp only: of_int_le_iff)
  then have "(1 :: rat) \<le> of_int (uint n)" by (simp only: of_int_1)
  from nearest_mono [OF _ this] show ?thesis by (simp del: of_int_uint)
qed

lemma cpuUsage_eq:
  assumes "SystemUsage (CPUStats stats) \<noteq> 0"
  shows "cpuUsage stats =
           Finite (nearest (nearest (nearest (of_int (uint (TotalUsage (CPUUsage (CPUStats stats)))))
                                     / nearest (of_int (uint (SystemUsage (CPUStats stats)))))
                            * 100))"
    and "0 \<le> nearest (nearest (nearest (of_int (uint (TotalUsage (CPUUsage (CPUStats stats)))))
                                     / nearest (of_int (uint (SystemUsage (CPUStats stats)))))
                            * 100)"
    and "uint (TotalUsage (CPUUsage (CPUStats stats))) \<le> uint (SystemUsage (CPUStats stats)) \<Longrightarrow>
         nearest (nearest (nearest (of_int (uint (TotalUsage (CPUUsage (CPUStats stats)))))
                                     / nearest (of_int (uint (SystemUsage (CPUStats stats)))))
                            * 100) \<le> 100"
proof -
  let ?T = "TotalUsage (CPUUsage (CPUStats stats))" and ?S = "SystemUsage (CPUStats stats)"
  let ?a = "nearest (of_int (uint ?T))" and ?b = "nearest (of_int (uint ?S))"
  have a: "0 \<le> ?a" "?a \<le> pow2 64" by (rule float64_of_uint64_Finite)+
  have b: "1 \<le> ?b" by (rule float64_of_uint64_ge_1 [OF assms])
  then have b0: "?b \<noteq> 0" "0 < ?b" by linarith+
  have q0: "0 \<le> ?a / ?b" using a(1) b0(2) by simp
  have "?a / ?b \<le> ?a / 1" using a(1) b by (intro divide_left_mono) simp_all
  with a(2) have q1: "?a / ?b \<le> pow2 64" by simp
  note q = f64_round_bounded [OF q0 q1]
  have div: "f64_div (float64_of_uint64 ?T) (float64_of_uint64 ?S) = Finite (nearest (?a / ?b))"
    using b0(1) q(1) by (simp add: float64_of_uint64_Finite)
  let ?q = "nearest (?a / ?b)"
  have p0: "0 \<le> ?q * 100" using q(2) by simp
  have "?q * 100 \<le> pow2 64 * 100" using q(3) by simp
  also have "\<dots> \<le> pow2 64 * pow2 7" by (simp add: pow2_def)
  also have "\<dots> = pow2 71" by (simp flip: pow2_add)
  finally have p1: "?q * 100 \<le> pow2 71" .
  note p = f64_round_bounded [OF p0 p1]
  show "cpuUsage stats = Finite (nearest (?q * 100))"
    using p(1) by (simp add: cpuUsage_def div)
  show "0 \<le> nearest (?q * 100)" using p(2) by simp
  show "nearest (?q * 100) \<le> 100" if "uint ?T \<le> uint ?S"
  proof -
    from that have "(of_int (uint ?T) :: rat) \<le> of_int (uint ?S)"
      by (simp only: of_int_le_iff)
    moreover have "(0 :: rat) \<le> of_int (uint ?T)" by (simp only: of_int_0_le_iff uint_ge_0)
    ultimately have "?a \<le> ?b" by (intro nearest_mono)
    then have "?a / ?b \<le> 1" using b0(2) by simp
    from nearest_mono [OF q0 this] have "?q \<le> 1" by simp
    then have "?q * 100 \<le> 100" by simp
    from nearest_mono [OF p0 this] show ?thesis by simp
  qed
qed

lemma f64_round_exact:
  assumes "0 \<le> m" "m \<le> 2 ^ 53" "- 1074 \<le> k" "k \<le> 970"
  shows "f64_round (of_int m * pow2 k) = Finite (of_int m * pow2 k)"
proof -
  have e: "nearest (of_int m * pow2 k) = of_int m * pow2 k"
    by (rule nearest_exact) (use assms in simp_all)
  have "(of_int m :: rat) \<le> of_int (2 ^ 53)" using assms(2) by (simp only: of_int_le_iff)
  then have "(of_int m * pow2 k :: rat) \<le> of_int (2 ^ 53) * pow2 k"
    by (intro mult_right_mono) simp_all
  also have "(of_int (2 ^ 53) :: rat) = pow2 53" by (simp add: pow2_def)
  also have "pow2 53 * pow2 k = pow2 (53 + k)" by (simp only: pow2_add)
  finally have le: "(of_int m * pow2 k :: rat) \<le> pow2 (53 + k)" .
  have "(0 :: rat) \<le> of_int m * pow2 k" using assms(1) by simp
  from f64_round_bounded(1) [OF this le] assms(3,4) show ?thesis by (simp add: e)
qed

lemma f64_round_of_int:
  "0 \<le> m \<Longrightarrow> m \<le> 2 ^ 53 \<Longrightarrow> f64_round (of_int m) = Finite (of_int m)"
  using f64_round_exact [of m 0] by (simp add: pow2_def)

lemma f64_round_three_quarters: "f64_round (3 / 4) = Finite (3 / 4)"
  using f64_round_exact [of 3 "- 2"] by (simp add: pow2_def)

lemma f64_round_half: "f64_round (1 / 2) = Finite (1 / 2)"
  using f64_round_exact [of 1 "- 1"] by (simp add: pow2_def)

lemma f64_round_0 [simp]: "f64_round 0 = Finite 0"
  by (simp add: f64_round_def not_le)

lemma round_half_even_0 [simp]: "round_half_even 0 = 0"
  using round_half_even_of_int [of 0] by simp

section \<open>The accuracy of the computed percentage\<close>

lemma nearest_rel_error:
  assumes "pow2 (- 1022) \<le> x"
  shows "\<bar>nearest x - x\<bar> \<le> x / 2 ^ 53"
proof -
  have pos: "0 < x" using assms pow2_pos [of "- 1022"] by linarith
  have b: "pow2 (binade x) \<le> x" "x < pow2 (binade x + 1)"
    using binade_bounds [OF pos] by simp_all
  from assms b(2) have "pow2 (- 1022) < pow2 (binade x + 1)" by linarith
  then have e: "max (binade x) (- 1022) = binade x" by simp
  have "ulp x = pow2 (binade x - 53 + 1)" by (simp add: ulp_def e)
  also have "\<dots> = pow2 (binade x - 53) * 2" by (simp only: pow2_add) (simp add: pow2_def)
  finally have "ulp x / 2 = pow2 (binade x - 53)" by simp
  also have "\<dots> = pow2 (binade x) / pow2 53" by (simp only: pow2_diff)
  also have "\<dots> = pow2 (binade x) / 2 ^ 53" by (simp add: pow2_def)
  also have "\<dots> \<le> x / 2 ^ 53" using b(1) by (simp add: divide_right_mono)
  finally have "ulp x / 2 \<le> x / 2 ^ 53" .
  with nearest_error [of x] show ?thesis by linarith
qed

lemma nearest_rel_error_ge_1:
  assumes "1 \<le> x"
  shows "\<bar>nearest x - x\<bar> \<le> x / 2 ^ 53"
proof -
  have "pow2 (- 1022) \<le> 1" by (simp add: pow2_def)
  with assms have "pow2 (- 1022) \<le> x" by linarith
  then show ?thesis by (rule nearest_rel_error)
qed

lemma quotient_rel_error:
  fixes a b T S :: rat
  assumes T: "0 < T" and S: "0 < S"
    and a: "\<bar>a - T\<bar> \<le> T / 2 ^ 53" and b: "\<bar>b - S\<bar> \<le> S / 2 ^ 53"
  shows "\<bar>a / b - T / S\<bar> \<le> T / S * 3 / 2 ^ 53"
proof -
  define x where "x = T / S"
  define e :: rat where "e = 1 / 2 ^ 53"
  have e: "0 < e" "e \<le> 1 / 3" by (simp_all add: e_def)
  have x: "0 < x" "x * S = T" using T S by (simp_all add: x_def)
  have Te_eq: "T * e = T / 2 ^ 53" "S * e = S / 2 ^ 53" by (simp_all add: e_def)
  have "a \<le> T + T * e" "T - T * e \<le> a" using a unfolding Te_eq by linarith+
  then have a': "a \<le> T * (1 + e)" "T * (1 - e) \<le> a" by (simp_all add: algebra_simps)
  have "b \<le> S + S * e" "S - S * e \<le> b" using b unfolding Te_eq by linarith+
  then have b': "b \<le> S * (1 + e)" "S * (1 - e) \<le> b" by (simp_all add: algebra_simps)
  have "0 < S * (1 - e)" using S e by (intro mult_pos_pos) simp_all
  with b'(2) have bpos: "0 < b" by linarith
  have "T * e * e \<le> T * e * (1 / 3)" using T e by (intro mult_left_mono) simp_all
  then have ee: "3 * (T * e * e) \<le> T * e" by simp
  have Te: "0 \<le> T * e * e" "0 \<le> T * e" using T e by simp_all
  have up: "a \<le> x * (1 + 3 * e) * b"
  proof -
    have "x * (1 + 3 * e) * (S * (1 - e)) \<le> x * (1 + 3 * e) * b"
      using b'(2) x(1) e(1) by (intro mult_left_mono) simp_all
    moreover have "x * (1 + 3 * e) * (S * (1 - e)) = (x * S) * ((1 + 3 * e) * (1 - e))"
      by simp
    moreover have "(x * S) * ((1 + 3 * e) * (1 - e)) = T + 2 * (T * e) - 3 * (T * e * e)"
      by (simp only: x(2)) (simp add: algebra_simps)
    moreover have "a \<le> T + T * e" using a'(1) by (simp add: algebra_simps)
    ultimately show ?thesis using ee Te by linarith
  qed
  have low: "x * (1 - 2 * e) * b \<le> a"
  proof -
    have "x * (1 - 2 * e) * b \<le> x * (1 - 2 * e) * (S * (1 + e))"
      using b'(1) x(1) e by (intro mult_left_mono) simp_all
    moreover have "x * (1 - 2 * e) * (S * (1 + e)) = (x * S) * ((1 - 2 * e) * (1 + e))"
      by simp
    moreover have "(x * S) * ((1 - 2 * e) * (1 + e)) = T - T * e - 2 * (T * e * e)"
      by (simp only: x(2)) (simp add: algebra_simps)
    moreover have "T - T * e \<le> a" using a'(2) by (simp add: algebra_simps)
    ultimately show ?thesis using Te by linarith
  qed
  from up bpos have "a / b \<le> x * (1 + 3 * e)" by (simp add: pos_divide_le_eq)
  also have "x * (1 + 3 * e) = x + 3 * (x * e)" by (simp add: algebra_simps)
  finally have u1: "a / b \<le> x + 3 * (x * e)" .
  have "x - 2 * (x * e) = x * (1 - 2 * e)" by (simp add: algebra_simps)
  also from low bpos have "x * (1 - 2 * e) \<le> a / b" by (simp add: pos_le_divide_eq)
  finally have l1: "x - 2 * (x * e) \<le> a / b" .
  have "0 \<le> x * e" using x(1) e(1) by simp
  with u1 l1 have "\<bar>a / b - x\<bar> \<le> 3 * (x * e)" by linarith
  then show ?thesis by (simp add: x_def e_def)
qed

lemma cpuUsage_accuracy:
  assumes S: "SystemUsage (CPUStats stats) \<noteq> 0"
  shows "\<exists>v. cpuUsage stats = Finite v \<and>
           \<bar>v - of_int (uint (TotalUsage (CPUUsage (CPUStats stats))))
                 / of_int (uint (SystemUsage (CPUStats stats))) * 100\<bar>
           \<le> of_int (uint (TotalUsage (CPUUsage (CPUStats stats))))
                 / of_int (uint (SystemUsage (CPUStats stats))) * 700 / 2 ^ 53"
proof -
  let ?T = "of_int (uint (TotalUsage (CPUUsage (CPUStats stats)))) :: rat"
  let ?S = "of_int (uint (SystemUsage (CPUStats stats))) :: rat"
  define x where "x = ?T / ?S"
  define y where "y = nearest ?T / nearest ?S"
  define t where "t = x / 2 ^ 53"
  have c: "cpuUsage stats = Finite (nearest (nearest y * 100))"
    using cpuUsage_eq(1) [OF S] by (simp only: y_def)
  have "uint (SystemUsage (CPUStats stats)) \<noteq> 0" using S by (simp add: uint_0_iff)
  then have "1 \<le> uint (SystemUsage (CPUStats stats))"
    using uint_ge_0 [of "SystemUsage (CPUStats stats)"] by linarith
  then have "(of_int 1 :: rat) \<le> ?S" by (simp only: of_int_le_iff)
  then have S1: "1 \<le> ?S" by (simp only: of_int_1)
  have Sle: "?S \<le> 2 ^ 64" using uint_u64_bound [of "SystemUsage (CPUStats stats)"]
    by (simp add: pow2_def del: of_int_uint)
  show ?thesis
  proof (cases "uint (TotalUsage (CPUUsage (CPUStats stats))) = 0")
    case True
    then have "x = 0" "y = 0" by (simp_all add: x_def y_def del: of_int_uint)
    with c True show ?thesis by (simp del: of_int_uint)
  next
    case False
    then have "1 \<le> uint (TotalUsage (CPUUsage (CPUStats stats)))"
      using uint_ge_0 [of "TotalUsage (CPUUsage (CPUStats stats))"] by linarith
    then have "(of_int 1 :: rat) \<le> ?T" by (simp only: of_int_le_iff)
    then have T1: "1 \<le> ?T" by (simp only: of_int_1)
    have "1 / 2 ^ 64 \<le> 1 / ?S" using S1 Sle by (intro divide_left_mono) simp_all
    also have "\<dots> \<le> ?T / ?S" using T1 S1 by (intro divide_right_mono) simp_all
    finally have xlow: "1 / 2 ^ 64 \<le> x" by (simp only: x_def)
    then have xpos: "0 < x" by (rule less_le_trans [rotated]) simp
    have t: "0 < t" "t \<le> x / 8" using xpos by (simp_all add: t_def)
    have "\<bar>y - x\<bar> \<le> x * 3 / 2 ^ 53"
      unfolding x_def y_def
      by (rule quotient_rel_error [OF _ _ nearest_rel_error_ge_1 [OF T1]
            nearest_rel_error_ge_1 [OF S1]]) (use T1 S1 in linarith)+
    then have yx: "\<bar>y - x\<bar> \<le> 3 * t" by (simp add: t_def)
    with t have ylow: "x / 2 \<le> y" and yhigh: "y \<le> 2 * x" by linarith+
    have p: "pow2 (- 1022) \<le> 1 / 2 ^ 66" by (simp add: pow2_def)
    have "1 / 2 ^ 66 \<le> x / 2" using xlow by simp
    with ylow p have "pow2 (- 1022) \<le> y" by linarith
    from nearest_rel_error [OF this] have "\<bar>nearest y - y\<bar> \<le> y / 2 ^ 53" .
    moreover have "y / 2 ^ 53 \<le> 2 * x / 2 ^ 53" using yhigh by (intro divide_right_mono) simp_all
    ultimately have q: "\<bar>nearest y - y\<bar> \<le> 2 * t" by (simp add: t_def)
    with yx t have qlow: "x / 4 \<le> nearest y" and qhigh: "nearest y \<le> 2 * x" by linarith+
    have "1 / 2 ^ 66 \<le> x / 4" using xlow by simp
    with qlow p have "pow2 (- 1022) \<le> nearest y" by linarith
    also have "nearest y \<le> nearest y * 100" using qlow xpos by simp
    finally have "pow2 (- 1022) \<le> nearest y * 100" .
    from nearest_rel_error [OF this]
    have "\<bar>nearest (nearest y * 100) - nearest y * 100\<bar> \<le> nearest y * 100 / 2 ^ 53" .
    moreover have "nearest y * 100 / 2 ^ 53 \<le> 2 * x * 100 / 2 ^ 53"
      using qhigh by (intro divide_right_mono mult_right_mono) simp_all
    ultimately have v: "\<bar>nearest (nearest y * 100) - nearest y * 100\<bar> \<le> 200 * t"
      by (simp add: t_def)
    have "x * 700 / 2 ^ 53 = 700 * t" by (simp add: t_def)
    with yx q v have "\<bar>nearest (nearest y * 100) - x * 100\<bar> \<le> x * 700 / 2 ^ 53"
      by linarith
    with c show ?thesis by (simp only: x_def) blast
  qed
qed

lemma nearest_form:
  assumes "0 < x"
  shows "\<exists>m. nearest x = of_int m * ulp x \<and> 0 \<le> m \<and> m \<le> 2 ^ 53"
proof -
  let ?e = "max (binade x) (- 1022)"
  let ?m = "round_half_even (x / ulp x)"
  have "(of_int 0 :: rat) \<le> x / ulp x" using assms by simp
  then have m0: "0 \<le> ?m" by (rule round_half_even_ge)
  have "x < pow2 (binade x + 1)" using binade_bounds [OF assms] by simp
  also have "\<dots> \<le> pow2 (?e + 1)" by simp
  finally have "x / ulp x < pow2 (?e + 1) / ulp x"
    by (simp add: divide_strict_right_mono)
  also have "pow2 (?e + 1) / ulp x = pow2 53"
    by (simp add: ulp_def flip: pow2_diff)
  also have "pow2 53 = of_int (2 ^ 53)" by (simp add: pow2_def)
  finally have "?m \<le> 2 ^ 53" by (intro round_half_even_le) simp
  with m0 assms show ?thesis by (auto simp: nearest_def)
qed

lemma memory_accuracy:
  fixes n :: "64 word"
  shows "\<exists>v. f64_div (float64_of_uint64 n) (Finite (1024 * 1024)) = Finite v \<and>
           \<bar>v - of_int (uint n) / 1048576\<bar> \<le> of_int (uint n) / 1048576 / 2 ^ 53 \<and>
           (uint n \<le> 2 ^ 53 \<longrightarrow> v = of_int (uint n) / 1048576)"
proof (cases "uint n = 0")
  case True
  then have "n = 0" by (simp add: uint_0_iff)
  then show ?thesis by (simp add: float64_of_uint64_def)
next
  case False
  let ?x = "of_int (uint n) :: rat"
  from False have "1 \<le> uint n" using uint_ge_0 [of n] by linarith
  then have "(of_int 1 :: rat) \<le> ?x" by (simp only: of_int_le_iff)
  then have x1: "1 \<le> ?x" by (simp only: of_int_1)
  then have xpos: "0 < ?x" by linarith
  from nearest_form [OF xpos] obtain m
    where m: "nearest ?x = of_int m * ulp ?x" "0 \<le> m" "m \<le> 2 ^ 53" by blast
  have "pow2 0 \<le> ?x" using x1 by (simp add: pow2_def del: of_int_uint)
  moreover have "pow2 (binade ?x) \<le> ?x" "?x < pow2 (binade ?x + 1)"
    using binade_bounds [OF xpos] by simp_all
  ultimately have "pow2 0 < pow2 (binade ?x + 1)" by linarith
  then have b0: "0 \<le> binade ?x" by simp
  have "pow2 (binade ?x) \<le> pow2 64" using \<open>pow2 (binade ?x) \<le> ?x\<close> uint_u64_bound [of n]
    by linarith
  then have b64: "binade ?x \<le> 64" by simp
  have e: "max (binade ?x) (- 1022) = binade ?x" using b0 by simp
  have u: "ulp ?x = pow2 (binade ?x - 52)" by (simp only: ulp_def e)
  have p20: "pow2 (- 20) = 1 / 1048576" by (simp add: pow2_def)
  have "nearest ?x / 1048576 = of_int m * (pow2 (binade ?x - 52) * pow2 (- 20))"
    by (simp only: m(1) u p20)
  also have "pow2 (binade ?x - 52) * pow2 (- 20) = pow2 (binade ?x - 72)"
    by (simp flip: pow2_add)
  finally have s: "nearest ?x / 1048576 = of_int m * pow2 (binade ?x - 72)" .
  have "f64_round (of_int m * pow2 (binade ?x - 72)) = Finite (of_int m * pow2 (binade ?x - 72))"
    by (rule f64_round_exact) (use m b0 b64 in simp_all)
  then have d: "f64_div (float64_of_uint64 n) (Finite (1024 * 1024)) = Finite (nearest ?x / 1048576)"
    by (simp add: float64_of_uint64_Finite s del: of_int_uint)
  from nearest_rel_error_ge_1 [OF x1]
  have "\<bar>nearest ?x - ?x\<bar> / 1048576 \<le> ?x / 2 ^ 53 / 1048576"
    by (intro divide_right_mono) simp_all
  then have r: "\<bar>nearest ?x / 1048576 - ?x / 1048576\<bar> \<le> ?x / 1048576 / 2 ^ 53"
    by (simp add: abs_le_iff diff_divide_distrib [symmetric] del: of_int_uint) 
  have "nearest ?x / 1048576 = ?x / 1048576" if "uint n \<le> 2 ^ 53"
    using nearest_of_int [OF uint_ge_0 that] by (simp del: of_int_uint)
  with d r show ?thesis by blast
qed

section \<open>The statistics handler\<close>

lemma decimal_small:
  "decimal 0 = ''0''" "decimal 50 = ''50''" "decimal 75 = ''75''" "decimal 100 = ''100''"
  "decimal 500 = ''500''"
  by (simp_all add: decimal.simps [of 0] decimal.simps [of 5] decimal.simps [of 50]
        decimal.simps [of 7] decimal.simps [of 75] decimal.simps [of 1] decimal.simps [of 10]
        decimal.simps [of 100] decimal.simps [of 500] digit_def)

lemma Sprintf_2f_of_int:
  assumes "0 \<le> n"
  shows "Sprintf_2f (Finite (of_int n)) = decimal n @ ''.00''"
proof -
  have "round_half_even (of_int n * 100) = n * 100"
    using round_half_even_of_int [of "n * 100"] by simp
  then show ?thesis by (simp add: Sprintf_2f_def digit_def)
qed

lemma Sprintf_2f_small:
  "Sprintf_2f (Finite 0) = ''0.00''" "Sprintf_2f (Finite 50) = ''50.00''"
  "Sprintf_2f (Finite 75) = ''75.00''" "Sprintf_2f (Finite 100) = ''100.00''"
  "Sprintf_2f (Finite 500) = ''500.00''"
  using Sprintf_2f_of_int [of 0] Sprintf_2f_of_int [of 50] Sprintf_2f_of_int [of 75]
    Sprintf_2f_of_int [of 100] Sprintf_2f_of_int [of 500]
  by (simp_all add: decimal_small)

lemma GetContainerStatsByID_reporting:
  "GetContainerStatsByID (reporting stats) containerID (connected d) =
     (Inr stats, \<lparr>cli = Some a_client, daemon = d,
                   requests = [(ReqContainerStats containerID False, None)], stdout = []\<rparr>)"
  by (simp add: GetContainerStatsByID_def invoke_def reporting_def accepting_def connected_def)

lemma GetStats_decoded:
  assumes "containerID \<noteq> []"
    and "GetContainerStatsByID api containerID s = (Inr stats, s')"
  shows "GetStats api containerID s =
     (Inr (JSON 200 (H_stats
        \<lparr>ContainerID = containerID,
         CPU = Sprintf_2f (cpuUsage stats) @ ''%'',
         Memory = Sprintf_2f (memoryUsage stats) @ '' / ''
                  @ Sprintf_2f (memoryLimit stats) @ '' MB'',
         NetworkRx = Sprintf_2f (networkRxBytes stats) @ '' MB'',
         NetworkTx = Sprintf_2f (networkTxBytes stats) @ '' MB''\<rparr>)), s')"
  using assms by (simp add: GetStats_def)

lemma busy_stats_values:
  "cpuUsage busy_stats = Finite 75" "spec_cpu_percent busy_stats = Finite 50"
  "memoryUsage busy_stats = Finite 50" "memoryLimit busy_stats = Finite 100"
  "networkRxBytes busy_stats = Finite 0" "networkTxBytes busy_stats = Finite 0"
  using f64_round_of_int [of 300] f64_round_of_int [of 400] f64_round_of_int [of 100]
    f64_round_of_int [of 200] f64_round_of_int [of 75] f64_round_of_int [of 50]
    f64_round_of_int [of 52428800] f64_round_of_int [of 104857600]
  by (simp_all add: cpuUsage_def spec_cpu_percent_def memoryUsage_def memoryLimit_def
        networkRxBytes_def networkTxBytes_def map_index_def NetworkStats_zero_def
        busy_stats_def float64_of_uint64_def f64_round_three_quarters f64_round_half)

text \<open>
  Claim C2, as stated, fails: for a snapshot whose network map has no entry \<^verbatim>\<open>eth0\<close>,
  \<^verbatim>\<open>GetStats\<close> answers with status 200 and reports 0.00 MB received and sent.
\<close>

theorem missing_eth0_reports_zero:
  "StatsJSON.Networks busy_stats ''eth0'' = None \<and>
   fst (GetStats (reporting busy_stats) ''abc123'' (connected ())) =
     Inr (JSON 200 (H_stats
        \<lparr>ContainerID = ''abc123'', CPU = ''75.00%'', Memory = ''50.00 / 100.00 MB'',
         NetworkRx = ''0.00 MB'', NetworkTx = ''0.00 MB''\<rparr>))"
  using GetStats_decoded [OF _ GetContainerStatsByID_reporting, of "''abc123''" busy_stats "()"]
  by (simp add: busy_stats_values Sprintf_2f_small) (simp add: busy_stats_def)

text \<open>
  Claim C2, amended. For every snapshot whose network map does not contain \<^verbatim>\<open>eth0\<close>,
  \<^verbatim>\<open>GetStats\<close> raises no error: the lookup gives the zero value, the receive and
  transmit values are 0, and the answer has status 200 with \<^verbatim>\<open>0.00 MB\<close> in both
  network fields.
\<close>

theorem missing_interface_reads_zero:
  assumes "containerID \<noteq> []"
    and "GetContainerStatsByID api containerID s = (Inr stats, s')"
    and "StatsJSON.Networks stats ''eth0'' = None"
  shows "networkRxBytes stats = Finite 0 \<and> networkTxBytes stats = Finite 0 \<and>
         (\<exists>body. GetStats api containerID s = (Inr (JSON 200 (H_stats body)), s') \<and>
            NetworkRx body = ''0.00 MB'' \<and> NetworkTx body = ''0.00 MB'')"
proof -
  have z: "networkRxBytes stats = Finite 0" "networkTxBytes stats = Finite 0"
    using assms(3)
    by (simp_all add: networkRxBytes_def networkTxBytes_def map_index_def NetworkStats_zero_def
          float64_of_uint64_def)
  with GetStats_decoded [OF assms(1,2)] show ?thesis
    by (simp add: Sprintf_2f_small)
qed

theorem missing_interface_reads_zero_witness:
  "''abc123'' \<noteq> [] \<and> StatsJSON.Networks busy_stats ''eth0'' = None \<and>
   networkRxBytes busy_stats = Finite 0 \<and>
   (\<exists>body. fst (GetStats (reporting busy_stats) ''abc123'' (connected ()))
             = Inr (JSON 200 (H_stats body)) \<and> NetworkRx body = ''0.00 MB'')"
proof -
  have a: "''abc123'' \<noteq> []" by simp
  have b: "StatsJSON.Networks busy_stats ''eth0'' = None" by (simp add: busy_stats_def)
  from missing_interface_reads_zero [OF a GetContainerStatsByID_reporting b, of "()"]
  show ?thesis using b by auto
qed

text \<open>
  Claim C6, as stated, fails: for a snapshot with the counters 300 of 400 now and 200 of
  200 at the previous sample, the ratio of the deltas times 100 is 50, and the code
  computes 75.
\<close>

theorem cpu_percent_is_not_a_delta:
  "cpuUsage busy_stats = Finite 75 \<and> spec_cpu_percent busy_stats = Finite 50"
  by (simp add: busy_stats_values)

text \<open>
  Claim C6, amended. \<^verbatim>\<open>GetStats\<close> derives the CPU percentage from the two cumulative
  counters of the snapshot alone, as total usage over system usage times 100: the value
  does not depend on the previous sample, and for a system counter that is not 0 it is
  within the relative error \<open>7 / 2^53\<close> of the exact quotient times 100. Memory used
  and limit are the byte counters divided by 1048576, within the relative error
  \<open>1 / 2^53\<close> of the conversion and exactly so for counters up to \<open>2^53\<close>. These are
  the values the answer prints.
\<close>

theorem cpu_and_memory_from_current_counters:
  "cpuUsage (stats\<lparr>PreCPUStats := pre\<rparr>) = cpuUsage stats \<and>
   (SystemUsage (CPUStats stats) \<noteq> 0 \<longrightarrow>
      (\<exists>v. cpuUsage stats = Finite v \<and>
         \<bar>v - of_int (uint (TotalUsage (CPUUsage (CPUStats stats))))
               / of_int (uint (SystemUsage (CPUStats stats))) * 100\<bar>
         \<le> of_int (uint (TotalUsage (CPUUsage (CPUStats stats))))
               / of_int (uint (SystemUsage (CPUStats stats))) * 700 / 2 ^ 53)) \<and>
   (\<exists>v. memoryUsage stats = Finite v \<and>
      \<bar>v - of_int (uint (Usage (MemoryStats stats))) / 1048576\<bar>
        \<le> of_int (uint (Usage (MemoryStats stats))) / 1048576 / 2 ^ 53 \<and>
      (uint (Usage (MemoryStats stats)) \<le> 2 ^ 53 \<longrightarrow>
         v = of_int (uint (Usage (MemoryStats stats))) / 1048576)) \<and>
   (\<exists>v. memoryLimit stats = Finite v \<and>
      \<bar>v - of_int (uint (MemoryStats.Limit (MemoryStats stats))) / 1048576\<bar>
        \<le> of_int (uint (MemoryStats.Limit (MemoryStats stats))) / 1048576 / 2 ^ 53 \<and>
      (uint (MemoryStats.Limit (MemoryStats stats)) \<le> 2 ^ 53 \<longrightarrow>
         v = of_int (uint (MemoryStats.Limit (MemoryStats stats))) / 1048576)) \<and>
   (containerID \<noteq> [] \<and> GetContainerStatsByID api containerID s = (Inr stats, s') \<longrightarrow>
      (\<exists>body. GetStats api containerID s = (Inr (JSON 200 (H_stats body)), s') \<and>
         CPU body = Sprintf_2f (cpuUsage stats) @ ''%'' \<and>
         Memory body = Sprintf_2f (memoryUsage stats) @ '' / ''
                       @ Sprintf_2f (memoryLimit stats) @ '' MB''))"
proof -
  have "cpuUsage (stats\<lparr>PreCPUStats := pre\<rparr>) = cpuUsage stats"
    by (simp add: cpuUsage_def)
  moreover note cpuUsage_accuracy [of stats]
  moreover note memory_accuracy [of "Usage (MemoryStats stats)", folded memoryUsage_def]
  moreover note memory_accuracy [of "MemoryStats.Limit (MemoryStats stats)", folded memoryLimit_def]
  moreover have "\<exists>body. GetStats api containerID s = (Inr (JSON 200 (H_stats body)), s') \<and>
         CPU body = Sprintf_2f (cpuUsage stats) @ ''%'' \<and>
         Memory body = Sprintf_2f (memoryUsage stats) @ '' / ''
                       @ Sprintf_2f (memoryLimit stats) @ '' MB''"
    if "containerID \<noteq> []" "GetContainerStatsByID api containerID s = (Inr stats, s')"
    using GetStats_decoded [OF that] by simp
  ultimately show ?thesis by blast
qed

theorem cpu_and_memory_from_current_counters_witness:
  "SystemUsage (CPUStats busy_stats) \<noteq> 0 \<and>
   uint (Usage (MemoryStats busy_stats)) \<le> 2 ^ 53 \<and>
   uint (MemoryStats.Limit (MemoryStats busy_stats)) \<le> 2 ^ 53 \<and>
   (\<exists>v. cpuUsage busy_stats = Finite v \<and> \<bar>v - 75\<bar> \<le> 525 / 2 ^ 53) \<and>
   memoryUsage busy_stats = Finite 50 \<and> memoryLimit busy_stats = Finite 100"
proof -
  have a: "SystemUsage (CPUStats busy_stats) \<noteq> 0"
    "uint (TotalUsage (CPUUsage (CPUStats busy_stats))) = 300"
    "uint (SystemUsage (CPUStats busy_stats)) = 400"
    "uint (Usage (MemoryStats busy_stats)) = 52428800"
    "uint (MemoryStats.Limit (MemoryStats busy_stats)) = 104857600"
    by (simp_all add: busy_stats_def)
  from cpu_and_memory_from_current_counters [where stats = busy_stats] a
  show ?thesis by (simp del: of_int_uint) blast
qed

text \<open>
  Claim C7, as stated, fails: for a snapshot with both counters 0 (a container that is
  not running) the computed percentage is \<open>NaN\<close>, printed as \<^verbatim>\<open>NaN%\<close>; and for a
  one-core snapshot whose total counter is 500 and whose system counter is 100 it is 500.
\<close>

theorem cpu_percent_without_bound:
  "cpuUsage idle_stats = NaN \<and>
   fst (GetStats (reporting idle_stats) ''abc123'' (connected ())) =
     Inr (JSON 200 (H_stats
        \<lparr>ContainerID = ''abc123'', CPU = ''NaN%'', Memory = ''0.00 / 0.00 MB'',
         NetworkRx = ''0.00 MB'', NetworkTx = ''0.00 MB''\<rparr>)) \<and>
   cpuUsage overcounted_stats = Finite 500 \<and>
   OnlineCPUs (CPUStats overcounted_stats) = 1"
proof -
  have i: "cpuUsage idle_stats = NaN" "memoryUsage idle_stats = Finite 0"
    "memoryLimit idle_stats = Finite 0" "networkRxBytes idle_stats = Finite 0"
    "networkTxBytes idle_stats = Finite 0"
    by (simp_all add: cpuUsage_def memoryUsage_def memoryLimit_def networkRxBytes_def
          networkTxBytes_def map_index_def NetworkStats_zero_def idle_stats_def
          float64_of_uint64_def)
  have o: "cpuUsage overcounted_stats = Finite 500"
    using f64_round_of_int [of 500] f64_round_of_int [of 100] f64_round_of_int [of 5]
    by (simp add: cpuUsage_def overcounted_stats_def busy_stats_def float64_of_uint64_def)
  have c: "OnlineCPUs (CPUStats overcounted_stats) = 1"
    by (simp add: overcounted_stats_def)
  from GetStats_decoded [OF _ GetContainerStatsByID_reporting, of "''abc123''" idle_stats "()"]
  have "fst (GetStats (reporting idle_stats) ''abc123'' (connected ())) =
     Inr (JSON 200 (H_stats
        \<lparr>ContainerID = ''abc123'', CPU = ''NaN%'', Memory = ''0.00 / 0.00 MB'',
         NetworkRx = ''0.00 MB'', NetworkTx = ''0.00 MB''\<rparr>))"
    by (simp add: i Sprintf_2f_small) (simp add: Sprintf_2f_def)
  with i(1) o c show ?thesis by simp
qed

text \<open>
  Claim C7, amended. For every snapshot whose system usage counter is not 0, the CPU
  percentage that \<^verbatim>\<open>GetStats\<close> computes is a finite number that is not negative (so it
  is not \<open>NaN\<close>); and whenever the total usage counter does not exceed the system usage
  counter it is at most 100, hence at most 100 times the number of cores when that number
  is not 0.
\<close>

theorem cpu_percent_finite_when_system_counted:
  assumes "SystemUsage (CPUStats stats) \<noteq> 0"
  shows "\<exists>v. cpuUsage stats = Finite v \<and> 0 \<le> v \<and>
           (TotalUsage (CPUUsage (CPUStats stats)) \<le> SystemUsage (CPUStats stats) \<longrightarrow>
              v \<le> 100 \<and>
              (OnlineCPUs (CPUStats stats) \<noteq> 0 \<longrightarrow>
                 v \<le> 100 * of_int (uint (OnlineCPUs (CPUStats stats)))))"
proof -
  let ?v = "nearest (nearest (nearest (of_int (uint (TotalUsage (CPUUsage (CPUStats stats)))))
                              / nearest (of_int (uint (SystemUsage (CPUStats stats)))))
                     * 100)"
  note c = cpuUsage_eq [OF assms]
  have "?v \<le> 100 * of_int (uint (OnlineCPUs (CPUStats stats)))"
    if le: "?v \<le> 100" and n: "OnlineCPUs (CPUStats stats) \<noteq> 0"
  proof -
    from n have "uint (OnlineCPUs (CPUStats stats)) \<noteq> 0" by (simp add: uint_0_iff)
    then have "1 \<le> uint (OnlineCPUs (CPUStats stats))"
      using uint_ge_0 [of "OnlineCPUs (CPUStats stats)"] by linarith
    then have "(of_int 1 :: rat) \<le> of_int (uint (OnlineCPUs (CPUStats stats)))"
      by (simp only: of_int_le_iff)
    then have "(100 :: rat) * 1 \<le> 100 * of_int (uint (OnlineCPUs (CPUStats stats)))"
      by (intro mult_left_mono) (simp_all del: of_int_uint)
    with le show ?thesis by linarith
  qed
  with c show ?thesis by (auto simp: word_le_def simp del: of_int_uint)
qed

theorem cpu_percent_finite_when_system_counted_witness:
  "SystemUsage (CPUStats busy_stats) \<noteq> 0 \<and>
   TotalUsage (CPUUsage (CPUStats busy_stats)) \<le> SystemUsage (CPUStats busy_stats) \<and>
   OnlineCPUs (CPUStats busy_stats) \<noteq> 0 \<and>
   (\<exists>v. cpuUsage busy_stats = Finite v \<and> 0 \<le> v \<and> v \<le> 100)"
proof -
  have a: "SystemUsage (CPUStats busy_stats) \<noteq> 0"
    "TotalUsage (CPUUsage (CPUStats busy_stats)) \<le> SystemUsage (CPUStats busy_stats)"
    "OnlineCPUs (CPUStats busy_stats) \<noteq> 0"
    by (simp_all add: busy_stats_def)
  from cpu_percent_finite_when_system_counted [OF a(1)] a show ?thesis by auto
qed

end
